theory Spec2Isabelle
  imports Main "HOL-Library.Word" "HOL-Library.Sublist"
begin

section \<open>ExternalInformationSkill: data model\<close>

text \<open>
  A shallow embedding of \<^verbatim>\<open>ExternalInformationSkill.cs\<close>
  (\<^verbatim>\<open>src/webapi/CopilotChat/Skills/ChatSkills\<close>). C\# \<^verbatim>\<open>int\<close> is a 32-bit
  two's complement integer whose arithmetic wraps silently; it is a \<open>32 word\<close>,
  compared with the signed orders \<open><s\<close> and \<open>\<le>s\<close>.
\<close>

type_synonym int32 = "32 word"

text \<open>
  Modelled from the spec: the class \<^verbatim>\<open>ContextVariables\<close> is declared outside this file.
  The specification has it as named string variables with get and set, enumerated in
  insertion order. It is an association list; \<^verbatim>\<open>TryGetValue\<close> looks a name up as it is
  written, and \<^verbatim>\<open>Set\<close> replaces the value of a name in place or appends a new entry.
\<close>

type_synonym ContextVariables = "(string \<times> string) list"

definition TryGetValue :: "ContextVariables \<Rightarrow> string \<Rightarrow> string option" where
  "TryGetValue variables name = map_of variables name"

fun Set_Variable :: "string \<Rightarrow> string \<Rightarrow> ContextVariables \<Rightarrow> ContextVariables" where
  "Set_Variable name v [] = [(name, v)]"
| "Set_Variable name v (p # ps) =
     (if fst p = name then (name, v) # ps else p # Set_Variable name v ps)"

text \<open>
  Modelled from the spec: the classes \<^verbatim>\<open>Plan\<close>, \<^verbatim>\<open>ProposedPlan\<close>, \<^verbatim>\<open>PlannerOptions\<close> and
  \<^verbatim>\<open>MissingFunctionErrorOptions\<close> and the enumerations \<^verbatim>\<open>PlanType\<close> and \<^verbatim>\<open>PlanState\<close>
  are declared outside this file. Their members are those of the specification's data
  model, under the names the skill uses: a plan is a list of steps and a top-level
  parameter dictionary, a step names a skill and a function and has its own parameters.
\<close>

datatype PlanType = Action | Sequential

datatype PlanState = NoOp | Approved

record PlanStep =
  SkillName :: string
  Name :: string
  StepParameters :: ContextVariables

record Plan =
  Steps :: "PlanStep list"
  Parameters :: ContextVariables

record ProposedPlan =
  Plan :: Plan
  ProposedType :: PlanType
  State :: PlanState

record MissingFunctionErrorOptions =
  AllowRetries :: bool
  MaxRetriesAllowed :: int32

record PlannerOptions =
  Type :: PlanType
  MissingFunctionError :: MissingFunctionErrorOptions
  AllowRetriesOnInvalidPlan :: bool

text \<open>
  The error codes the skill looks at: \<^verbatim>\<open>PlanningException.ErrorCodes.InvalidPlan\<close> and
  \<^verbatim>\<open>KernelException.ErrorCodes.FunctionNotAvailable\<close>; every other code of the two
  enumerations is one constructor. An exception carries its \<^verbatim>\<open>InnerException\<close>, which
  may be null.
\<close>

datatype PlanningErrorCodes = InvalidPlan | OtherPlanningError

datatype KernelErrorCodes = FunctionNotAvailable | OtherKernelError

datatype Exception =
    PlanningException PlanningErrorCodes "Exception option"
  | KernelException KernelErrorCodes "Exception option"
  | JsonException
  | InvalidOperationException
  | NullReferenceException
  | ArgumentOutOfRangeException
  | KeyNotFoundException
  | FormatException
  | OtherException string

fun is_PlanningException :: "Exception \<Rightarrow> bool" where
  "is_PlanningException (PlanningException c i) = True"
| "is_PlanningException e = False"

text \<open>\<^verbatim>\<open>x as PlanningException\<close> on a possibly null reference: null unless \<open>x\<close> is one.\<close>

fun as_PlanningException :: "Exception option \<Rightarrow> PlanningErrorCodes option" where
  "as_PlanningException (Some (PlanningException c i)) = Some c"
| "as_PlanningException x = None"

text \<open>
  The planner is a collaborator: \<^verbatim>\<open>CreatePlanAsync\<close> answers the \<open>n\<close>-th call made to it
  (counted from 0) with a plan, with null, or by throwing. \<open>Kernel_Skills\<close> is what
  \<^verbatim>\<open>Kernel.Skills.GetFunctionsView(true, true)\<close> returns.
\<close>

record FunctionsView =
  NativeFunctions :: "(string \<times> string list) list"
  SemanticFunctions :: "(string \<times> string list) list"

datatype PlannerOutcome = Returns "Plan option" | Throws Exception

record CopilotChatPlanner =
  Kernel_Skills :: FunctionsView
  PlannerOptions :: "PlannerOptions option"
  CreatePlanAsync :: "nat \<Rightarrow> string \<Rightarrow> PlannerOutcome"

text \<open>
  What a call can change: the skill's \<^verbatim>\<open>ProposedPlan\<close> property, the log of the
  context (\<^verbatim>\<open>context.Log\<close>), the log of the planner's kernel, and the number of calls
  made so far to the planner and to the plan executor.
\<close>

datatype LogEntry = LogWarning string Exception | LogDebug string

record World =
  ProposedPlan :: "ProposedPlan option"
  Log :: "LogEntry list"
  KernelLog :: "LogEntry list"
  PlannerCalls :: nat
  ExecutorCalls :: nat

section \<open>Error classification\<close>

text \<open>
  \<^verbatim>\<open>IsRetriableError\<close>, lines 190 to 202. The operator \<^verbatim>\<open>!\<close> only silences the
  compiler: reading \<^verbatim>\<open>ErrorCode\<close> of the null that \<^verbatim>\<open>as\<close> produced, or a member of a
  null \<^verbatim>\<open>PlannerOptions\<close>, throws \<^verbatim>\<open>NullReferenceException\<close>. \<^verbatim>\<open>&&\<close> and \<^verbatim>\<open>||\<close>
  evaluate from left to right and stop early.
\<close>

definition has_InvalidPlan_code :: "PlanningErrorCodes \<Rightarrow> Exception option \<Rightarrow> Exception + bool" where
  "has_InvalidPlan_code code inner =
     (if code = InvalidPlan then Inr True
      else case as_PlanningException inner of
             None \<Rightarrow> Inl NullReferenceException
           | Some c \<Rightarrow> Inr (c = InvalidPlan))"

definition retryOnInvalidPlanError :: "CopilotChatPlanner \<Rightarrow> Exception \<Rightarrow> Exception + bool" where
  "retryOnInvalidPlanError planner e =
     (case e of
        PlanningException code inner \<Rightarrow>
          (case has_InvalidPlan_code code inner of
             Inl x \<Rightarrow> Inl x
           | Inr False \<Rightarrow> Inr False
           | Inr True \<Rightarrow>
               (case PlannerOptions planner of
                  None \<Rightarrow> Inl NullReferenceException
                | Some opts \<Rightarrow> Inr (AllowRetriesOnInvalidPlan opts)))
      | _ \<Rightarrow> Inr False)"

definition retryOnMissingFunctionError :: "CopilotChatPlanner \<Rightarrow> Exception \<Rightarrow> Exception + bool" where
  "retryOnMissingFunctionError planner e =
     (case e of
        KernelException code inner \<Rightarrow>
          (if code = FunctionNotAvailable
           then (case PlannerOptions planner of
                   None \<Rightarrow> Inl NullReferenceException
                 | Some opts \<Rightarrow> Inr (AllowRetries (MissingFunctionError opts)))
           else Inr False)
      | _ \<Rightarrow> Inr False)"

definition IsRetriableError :: "CopilotChatPlanner \<Rightarrow> Exception \<Rightarrow> Exception + bool" where
  "IsRetriableError planner e =
     (case retryOnInvalidPlanError planner e of
        Inl x \<Rightarrow> Inl x
      | Inr invalidPlan \<Rightarrow>
          (case retryOnMissingFunctionError planner e of
             Inl x \<Rightarrow> Inl x
           | Inr missingFunction \<Rightarrow> Inr (missingFunction \<or> invalidPlan)))"

section \<open>The planning loop\<close>

text \<open>
  \<^verbatim>\<open>catch (Exception e) when (this.IsRetriableError(e))\<close>: an exception thrown while the
  runtime evaluates an exception filter is discarded and the filter counts as false, so the
  handler is entered only when the helper returns true.
\<close>

definition filter_holds :: "Exception + bool \<Rightarrow> bool" where
  "filter_holds r = (case r of Inl x \<Rightarrow> False | Inr b \<Rightarrow> b)"

text \<open>
  \<^verbatim>\<open>x--\<close> stores \<open>x - 1\<close> in the variable and has the old value of \<open>x\<close> as its value:
  \<open>post_decrement x\<close> is the pair of the expression's value and the variable's new content.
  In \<^verbatim>\<open>retriesAvail = e is PlanningException ? 0 : retriesAvail--\<close> the assignment runs
  after the conditional expression and stores that expression's value.
\<close>

definition post_decrement :: "int32 \<Rightarrow> int32 \<times> int32" where
  "post_decrement x = (x, x - 1)"

definition assign_retriesAvail :: "Exception \<Rightarrow> int32 \<Rightarrow> int32" where
  "assign_retriesAvail e retriesAvail =
     (if is_PlanningException e then 0
      else (let (v, decremented) = post_decrement retriesAvail in v))"

definition retry_template :: string where
  "retry_template = ''Retrying CreatePlan on error: {0}''"

text \<open>
  The \<^verbatim>\<open>do ... while (plan == null)\<close> loop of lines 138 to 157, on the pair of
  \<^verbatim>\<open>retriesAvail\<close> and the world. It returns the plan or the exception that leaves the
  loop; \<open>None\<close> is a loop that never ends.
\<close>

partial_function (option) CreatePlanLoop ::
  "CopilotChatPlanner \<Rightarrow> string \<Rightarrow> int32 \<Rightarrow> World \<Rightarrow> ((Exception + Plan) \<times> int32 \<times> World) option"
where
  "CreatePlanLoop planner goal retriesAvail w =
     (let w1 = w\<lparr>PlannerCalls := Suc (PlannerCalls w)\<rparr> in
      case CreatePlanAsync planner (PlannerCalls w) goal of
        Returns None \<Rightarrow> CreatePlanLoop planner goal retriesAvail w1
      | Returns (Some plan) \<Rightarrow> Some (Inr plan, retriesAvail, w1)
      | Throws e \<Rightarrow>
          if filter_holds (IsRetriableError planner e) then
            if 0 <s retriesAvail then
              CreatePlanLoop planner goal (assign_retriesAvail e retriesAvail)
                (w1\<lparr>Log := Log w1 @ [LogWarning retry_template e]\<rparr>)
            else Some (Inl e, retriesAvail, w1)
          else Some (Inl e, retriesAvail, w1))"

section \<open>Strings\<close>

text \<open>
  Strings are lists of 8-bit characters. \<^verbatim>\<open>Char.IsWhiteSpace\<close> holds in that range for
  the space, the controls 9 to 13, the next-line control and the no-break space.
\<close>

definition IsWhiteSpace :: "char \<Rightarrow> bool" where
  "IsWhiteSpace c \<longleftrightarrow>
     (let n = (of_char c :: nat) in n = 32 \<or> (9 \<le> n \<and> n \<le> 13) \<or> n = 133 \<or> n = 160)"

definition IsNullOrWhiteSpace :: "string \<Rightarrow> bool" where
  "IsNullOrWhiteSpace s \<longleftrightarrow> list_all IsWhiteSpace s"

definition Trim :: "string \<Rightarrow> string" where
  "Trim s = rev (dropWhile IsWhiteSpace (rev (dropWhile IsWhiteSpace s)))"

text \<open>\<^verbatim>\<open>Regex.Replace(s, @"[\n\r]", string.Empty)\<close>.\<close>

definition remove_newlines :: "string \<Rightarrow> string" where
  "remove_newlines s = filter (\<lambda>c. c \<noteq> CHR 0x0A \<and> c \<noteq> CHR 0x0D) s"

text \<open>
  Ordinal comparison ignoring case compares the uppercase forms character by character:
  the ASCII letters, and the Latin-1 letters from 224 to 254 apart from the division sign.
\<close>

definition ToUpperOrdinal :: "char \<Rightarrow> char" where
  "ToUpperOrdinal c =
     (let n = (of_char c :: nat)
      in if (97 \<le> n \<and> n \<le> 122) \<or> (224 \<le> n \<and> n \<le> 254 \<and> n \<noteq> 247)
         then char_of (n - 32) else c)"

definition Equals_OrdinalIgnoreCase :: "string \<Rightarrow> string \<Rightarrow> bool" where
  "Equals_OrdinalIgnoreCase a b \<longleftrightarrow> map ToUpperOrdinal a = map ToUpperOrdinal b"

definition StartsWith_IgnoreCase :: "string \<Rightarrow> string \<Rightarrow> bool" where
  "StartsWith_IgnoreCase s pre \<longleftrightarrow>
     take (length pre) (map ToUpperOrdinal s) = map ToUpperOrdinal pre"

fun Join :: "string \<Rightarrow> string list \<Rightarrow> string" where
  "Join sep [] = []"
| "Join sep [x] = x"
| "Join sep (x # y # ys) = x @ sep @ Join sep (y # ys)"

section \<open>Merging context variables into plan parameters\<close>

text \<open>
  \<^verbatim>\<open>MergeContextIntoPlan\<close>, lines 207 to 221. The \<^verbatim>\<open>foreach\<close> enumerates the entries of
  \<^verbatim>\<open>planParams\<close> while the body sets values of names that are already there, so the
  names enumerated are those of the dictionary on entry.
\<close>

fun MergeLoop :: "ContextVariables \<Rightarrow> (string \<times> string) list \<Rightarrow> ContextVariables \<Rightarrow> ContextVariables" where
  "MergeLoop variables [] planParams = planParams"
| "MergeLoop variables (param # rest) planParams =
     (if Equals_OrdinalIgnoreCase (fst param) ''INPUT''
      then MergeLoop variables rest planParams
      else case TryGetValue variables (fst param) of
             Some v \<Rightarrow> MergeLoop variables rest (Set_Variable (fst param) v planParams)
           | None \<Rightarrow> MergeLoop variables rest planParams)"

definition MergeContextIntoPlan :: "ContextVariables \<Rightarrow> ContextVariables \<Rightarrow> ContextVariables" where
  "MergeContextIntoPlan variables planParams = MergeLoop variables planParams planParams"

section \<open>The propose branch\<close>

record SKContext =
  Variables :: ContextVariables

definition contextString :: "SKContext \<Rightarrow> string" where
  "contextString context =
     Join [CHR 0x0A]
       (map (\<lambda>v. fst v @ '': '' @ snd v)
          (filter (\<lambda>v. fst v \<noteq> ''userIntent'') (Variables context)))"

definition planner_goal :: "SKContext \<Rightarrow> string \<Rightarrow> string" where
  "planner_goal context userIntent =
     ''Given the following context, accomplish the user intent.'' @ [CHR 0x0A] @
     ''Context:'' @ [CHR 0x0A] @ contextString context @ [CHR 0x0A] @
     ''User Intent:'' @ userIntent"

text \<open>Lines 134 to 136. The source remarks of \<^verbatim>\<open>MaxRetriesAllowed\<close>: "Will always be at least 1".\<close>

definition initial_retriesAvail :: "PlannerOptions \<Rightarrow> int32" where
  "initial_retriesAvail plannerOptions =
     (if AllowRetries (MissingFunctionError plannerOptions)
      then MaxRetriesAllowed (MissingFunctionError plannerOptions)
      else if AllowRetriesOnInvalidPlan plannerOptions then 1 else 0)"

text \<open>Lines 159 to 177, for a plan that has at least one step.\<close>

definition merge_into_plan :: "PlannerOptions \<Rightarrow> SKContext \<Rightarrow> Plan \<Rightarrow> Plan" where
  "merge_into_plan plannerOptions context plan =
     (if Type plannerOptions = Action
      then plan\<lparr>Parameters := MergeContextIntoPlan (Variables context) (Parameters plan)\<rparr>
      else plan\<lparr>Steps :=
             map (\<lambda>step. step\<lparr>StepParameters :=
                    MergeContextIntoPlan (Variables context) (StepParameters step)\<rparr>)
               (Steps plan)\<rparr>)"

text \<open>
  Line 133: \<open>defaultOptions\<close> is \<^verbatim>\<open>new PlannerOptions()\<close>, whose defaults are
  declared outside this file.
\<close>

definition options_or_default :: "PlannerOptions \<Rightarrow> CopilotChatPlanner \<Rightarrow> PlannerOptions" where
  "options_or_default defaultOptions planner =
     (case PlannerOptions planner of None \<Rightarrow> defaultOptions | Some opts \<Rightarrow> opts)"

text \<open>The \<^verbatim>\<open>else\<close> branch of lines 127 to 180.\<close>

definition ProposeBranch ::
  "PlannerOptions \<Rightarrow> CopilotChatPlanner \<Rightarrow> string \<Rightarrow> SKContext \<Rightarrow> World
     \<Rightarrow> ((Exception + string) \<times> World) option"
where
  "ProposeBranch defaultOptions planner userIntent context w =
     (let plannerOptions = options_or_default defaultOptions planner
      in case CreatePlanLoop planner (planner_goal context userIntent)
                (initial_retriesAvail plannerOptions) w of
           None \<Rightarrow> None
         | Some (Inl e, retriesAvail, w1) \<Rightarrow> Some (Inl e, w1)
         | Some (Inr plan, retriesAvail, w1) \<Rightarrow>
             if Steps plan \<noteq> []
             then Some (Inr [],
                    w1\<lparr>ProposedPlan :=
                         Some \<lparr>Plan = merge_into_plan plannerOptions context plan,
                               ProposedType = Type plannerOptions, State = NoOp\<rparr>\<rparr>)
             else Some (Inr [], w1))"

section \<open>JSON documents and the token counter\<close>

text \<open>
  A parsed JSON value as \<^verbatim>\<open>System.Text.Json\<close> presents it: its \<^verbatim>\<open>ValueKind\<close>, its raw
  text (\<^verbatim>\<open>GetRawText\<close>), the text \<^verbatim>\<open>ToString\<close> gives, its properties in declaration order
  (\<^verbatim>\<open>EnumerateObject\<close>) and its elements (\<^verbatim>\<open>EnumerateArray\<close>). A property has a name, the
  text of \<^verbatim>\<open>JsonProperty.ToString\<close> and a value.
\<close>

datatype JsonValueKind =
  Undefined | Object | Array | String | Number | True_kind | False_kind | Null

datatype JsonElement =
  JsonElement (ValueKind: JsonValueKind) (GetRawText: string) (ElementText: string)
    (EnumerateObject: "JsonProperty list") (EnumerateArray: "JsonElement list")
and JsonProperty =
  JsonProperty (PropertyName: string) (PropertyText: string) (PropertyValue: JsonElement)

text \<open>What \<^verbatim>\<open>itemList\<close> (a \<^verbatim>\<open>List<object>\<close>) holds: properties or array elements.\<close>

datatype Item = PropertyItem JsonProperty | ElementItem JsonElement

fun ItemText :: "Item \<Rightarrow> string" where
  "ItemText (PropertyItem p) = PropertyText p"
| "ItemText (ElementItem e) = ElementText e"

datatype SkillResponseType =
  object_type | PullRequest_array | PullRequest_type | IssueResponse_array | IssueResponse_type

text \<open>
  What the skill calls and this file does not define: the token counter
  (\<^verbatim>\<open>TokenUtilities.TokenCount\<close>), the JSON parsers and serializers, the integer parser, the
  plan loader and the plan executor. Each is a function handed to the model; one that can
  throw returns a sum. \<open>'r\<close> is the type of a deserialized skill response.
\<close>

record SKContextResult =
  Result :: string
  Variables_Input :: string

record 'r Library =
  TokenCount :: "string \<Rightarrow> int32"
  JsonDocument_Parse :: "string \<Rightarrow> Exception + JsonElement"
  JsonNode_Parse :: "string \<Rightarrow> Exception + JsonElement option"
  Deserialize_ProposedPlan :: "string \<Rightarrow> Exception + ProposedPlan option"
  Deserialize_Response :: "string \<Rightarrow> SkillResponseType \<Rightarrow> Exception + 'r option"
  Serialize_Response :: "'r \<Rightarrow> string"
  Serialize_Items :: "Item list \<Rightarrow> string"
  Serialize_Plan :: "Plan \<Rightarrow> string"
  Plan_FromJson :: "string \<Rightarrow> Exception + Plan"
  InvokeAsync :: "Plan \<Rightarrow> Exception + SKContextResult"
  int_Parse :: "string \<Rightarrow> Exception + int32"
  new_PlannerOptions :: PlannerOptions

section \<open>The result optimizer\<close>

text \<open>Lines 360 to 395: the response type and whether the response is trimmed.\<close>

definition GetGithubSkillResponseType :: "JsonElement \<Rightarrow> SkillResponseType" where
  "GetGithubSkillResponseType document =
     (if ValueKind document = Array then PullRequest_array else PullRequest_type)"

definition GetJiraPluginResponseType :: "JsonElement \<Rightarrow> string \<Rightarrow> SkillResponseType" where
  "GetJiraPluginResponseType document lastSkillFunctionInvoked =
     (if lastSkillFunctionInvoked = ''GetIssue''
      then (if ValueKind document = Array then IssueResponse_array else IssueResponse_type)
      else IssueResponse_type)"

definition GetOpenApiSkillResponseType ::
  "JsonElement \<Rightarrow> string \<Rightarrow> string \<Rightarrow> SkillResponseType \<times> bool" where
  "GetOpenApiSkillResponseType document lastSkillInvoked lastSkillFunctionInvoked =
     (if lastSkillInvoked = ''GitHubPlugin''
      then (GetGithubSkillResponseType document, True)
      else if lastSkillInvoked = ''JiraPlugin''
      then (GetJiraPluginResponseType document lastSkillFunctionInvoked, True)
      else (object_type, False))"

text \<open>
  The two \<^verbatim>\<open>foreach\<close> loops of lines 319 to 332 and 339 to 352 have the same body: an item
  whose cost leaves \<^verbatim>\<open>tokenLimit - cost > 0\<close> is added and paid for, the first other one
  ends the loop.
\<close>

fun accumulate :: "(Item \<Rightarrow> int32) \<Rightarrow> Item list \<Rightarrow> Item list \<times> int32 \<Rightarrow> Item list \<times> int32" where
  "accumulate cost [] (itemList, tokenLimit) = (itemList, tokenLimit)"
| "accumulate cost (x # xs) (itemList, tokenLimit) =
     (if 0 <s tokenLimit - cost x
      then accumulate cost xs (itemList @ [x], tokenLimit - cost x)
      else (itemList, tokenLimit))"

definition too_large_message :: "string \<Rightarrow> string" where
  "too_large_message source =
     ''JSON response from '' @ source @ '' is too large to be consumed at this time.''"

text \<open>Lines 288 to 313: the single property of a root object replaces the document.\<close>

definition unwrap_single_property ::
  "'r Library \<Rightarrow> JsonElement \<Rightarrow> int32 \<Rightarrow> Exception + (JsonElement \<times> int32 \<times> string)" where
  "unwrap_single_property lib document tokenLimit =
     (if ValueKind document = Object \<and> length (EnumerateObject document) = 1
      then (let firstProperty = hd (EnumerateObject document)
            in case JsonDocument_Parse lib (GetRawText (PropertyValue firstProperty)) of
                 Inl e \<Rightarrow> Inl e
               | Inr d \<Rightarrow>
                   Inr (d, tokenLimit - TokenCount lib (PropertyName firstProperty),
                        PropertyName firstProperty @ '': ''))
      else Inr (document, tokenLimit, []))"

text \<open>The cost of an item: the token count of its \<^verbatim>\<open>ToString\<close> text.\<close>

definition item_cost :: "'r Library \<Rightarrow> Item \<Rightarrow> int32" where
  "item_cost lib item = TokenCount lib (ItemText item)"

text \<open>Lines 315 to 353: the two loops, one after the other, on the same list and limit.\<close>

definition accumulate_document :: "'r Library \<Rightarrow> JsonElement \<Rightarrow> int32 \<Rightarrow> Item list \<times> int32" where
  "accumulate_document lib document tokenLimit =
     (let acc1 = (if ValueKind document = Object
                  then accumulate (item_cost lib) (map PropertyItem (EnumerateObject document))
                         ([], tokenLimit)
                  else ([], tokenLimit))
      in if ValueKind document = Array
         then accumulate (item_cost lib) (map ElementItem (EnumerateArray document)) acc1
         else acc1)"

text \<open>The items the loops go through, in the order of the enumeration.\<close>

definition document_items :: "JsonElement \<Rightarrow> Item list" where
  "document_items document =
     (if ValueKind document = Object then map PropertyItem (EnumerateObject document)
      else if ValueKind document = Array then map ElementItem (EnumerateArray document)
      else [])"

text \<open>Lines 280 to 358, from the token count of the content on.\<close>

definition truncate_json ::
  "'r Library \<Rightarrow> CopilotChatPlanner \<Rightarrow> string \<Rightarrow> string \<Rightarrow> JsonElement \<Rightarrow> int32
     \<Rightarrow> Exception + string" where
  "truncate_json lib planner lastSkillInvoked jsonContent document tokenLimit =
     (if TokenCount lib jsonContent <s tokenLimit then Inr jsonContent
      else case unwrap_single_property lib document tokenLimit of
             Inl e \<Rightarrow> Inl e
           | Inr (document1, tokenLimit1, resultsDescriptor) \<Rightarrow>
               (let itemList = fst (accumulate_document lib document1 tokenLimit1)
                in if itemList \<noteq> []
                   then Inr (resultsDescriptor @ Serialize_Items lib itemList)
                   else Inr (too_large_message
                          (if map_option Type (PlannerOptions planner) = Some Sequential
                           then ''plan'' else lastSkillInvoked))))"

text \<open>
  Lines 261 to 278 of \<^verbatim>\<open>OptimizeOpenApiSkillJson\<close>: the name of the last skill invoked,
  the content (trimmed to the fields of the skill's response type for the two known
  plugins) and its parsed document. \<^verbatim>\<open>plan.Steps[^1]\<close> throws on a plan without steps.
\<close>

definition prepare_json ::
  "'r Library \<Rightarrow> string \<Rightarrow> Plan \<Rightarrow> Exception + (string \<times> string \<times> JsonElement)" where
  "prepare_json lib jsonContent0 plan =
     (let jsonContent = remove_newlines (Trim jsonContent0)
      in case JsonDocument_Parse lib jsonContent of
           Inl e \<Rightarrow> Inl e
         | Inr document \<Rightarrow>
             if Steps plan = [] then Inl ArgumentOutOfRangeException
             else
               (let lastSkillInvoked = SkillName (last (Steps plan));
                    lastSkillFunctionInvoked = Name (last (Steps plan));
                    (skillResponseType, trimSkillResponse) =
                      GetOpenApiSkillResponseType document lastSkillInvoked lastSkillFunctionInvoked
                in if trimSkillResponse
                   then (case Deserialize_Response lib jsonContent skillResponseType of
                           Inl e \<Rightarrow> Inl e
                         | Inr skillResponse \<Rightarrow>
                             (let trimmed = (case skillResponse of
                                               Some r \<Rightarrow> Serialize_Response lib r
                                             | None \<Rightarrow> [])
                              in case JsonDocument_Parse lib trimmed of
                                   Inl e \<Rightarrow> Inl e
                                 | Inr document1 \<Rightarrow> Inr (lastSkillInvoked, trimmed, document1)))
                   else Inr (lastSkillInvoked, jsonContent, document)))"

text \<open>\<^verbatim>\<open>OptimizeOpenApiSkillJson\<close>, lines 259 to 358.\<close>

definition OptimizeOpenApiSkillJson ::
  "'r Library \<Rightarrow> CopilotChatPlanner \<Rightarrow> string \<Rightarrow> int32 \<Rightarrow> Plan \<Rightarrow> Exception + string" where
  "OptimizeOpenApiSkillJson lib planner jsonContent0 tokenLimit plan =
     (case prepare_json lib jsonContent0 plan of
        Inl e \<Rightarrow> Inl e
      | Inr (lastSkillInvoked, jsonContent, document) \<Rightarrow>
          truncate_json lib planner lastSkillInvoked jsonContent document tokenLimit)"

section \<open>The execute branch\<close>

definition PromptPreamble :: string where "PromptPreamble = ''[RELATED START]''"
definition ResultHeader :: string where "ResultHeader = ''RESULT: ''"
definition PromptPostamble :: string where "PromptPostamble = ''[RELATED END]''"

definition GetPlanSteps :: "Plan \<Rightarrow> string list" where
  "GetPlanSteps plan = map (\<lambda>step. SkillName step @ ''.'' @ Name step) (Steps plan)"

text \<open>
  \<^verbatim>\<open>jsonNode?["name"]\<close>: null stays null, a node that is not an object throws
  \<^verbatim>\<open>InvalidOperationException\<close>, a missing or null property is null.
\<close>

definition node_index :: "JsonElement option \<Rightarrow> string \<Rightarrow> Exception + JsonElement option" where
  "node_index node name =
     (case node of
        None \<Rightarrow> Inr None
      | Some n \<Rightarrow>
          if ValueKind n = Object
          then (case find (\<lambda>p. PropertyName p = name) (EnumerateObject n) of
                  None \<Rightarrow> Inr None
                | Some p \<Rightarrow> if ValueKind (PropertyValue p) = Null then Inr None
                            else Inr (Some (PropertyValue p)))
          else Inl InvalidOperationException)"

definition node_text :: "JsonElement option \<Rightarrow> string" where
  "node_text node = (case node of None \<Rightarrow> [] | Some n \<Rightarrow> ElementText n)"

text \<open>The \<^verbatim>\<open>try\<close> block of lines 228 to 241: the content, when there is one to return.\<close>

definition extract_content :: "'r Library \<Rightarrow> string \<Rightarrow> Exception + string option" where
  "extract_content lib openApiSkillResponse =
     (case JsonNode_Parse lib openApiSkillResponse of
        Inl e \<Rightarrow> Inl e
      | Inr jsonNode \<Rightarrow>
          (case node_index jsonNode ''contentType'' of
             Inl e \<Rightarrow> Inl e
           | Inr ct \<Rightarrow>
               if StartsWith_IgnoreCase (node_text ct) ''application/json''
               then (case node_index jsonNode ''content'' of
                       Inl e \<Rightarrow> Inl e
                     | Inr c \<Rightarrow>
                         if \<not> IsNullOrWhiteSpace (node_text c) then Inr (Some (node_text c))
                         else Inr None)
               else Inr None))"

definition TryExtractJsonFromOpenApiPlanResult ::
  "'r Library \<Rightarrow> string \<Rightarrow> World \<Rightarrow> (Exception + bool \<times> string) \<times> World" where
  "TryExtractJsonFromOpenApiPlanResult lib openApiSkillResponse w =
     (case extract_content lib openApiSkillResponse of
        Inr (Some json) \<Rightarrow> (Inr (True, json), w)
      | Inr None \<Rightarrow> (Inr (False, []), w)
      | Inl JsonException \<Rightarrow>
          (Inr (False, []),
           w\<lparr>KernelLog := KernelLog w @
               [LogDebug ''Unable to extract JSON from planner response, it is likely not from an OpenAPI skill.'']\<rparr>)
      | Inl InvalidOperationException \<Rightarrow>
          (Inr (False, []),
           w\<lparr>KernelLog := KernelLog w @
               [LogDebug ''Unable to extract JSON from planner response, it may already be proper JSON.'']\<rparr>)
      | Inl e \<Rightarrow> (Inl e, w))"

text \<open>\<^verbatim>\<open>context["tokenLimit"]\<close>: the indexer throws when the name is not there.\<close>

definition context_index :: "SKContext \<Rightarrow> string \<Rightarrow> Exception + string" where
  "context_index context name =
     (case TryGetValue (Variables context) name of
        None \<Rightarrow> Inl KeyNotFoundException
      | Some v \<Rightarrow> Inr v)"

text \<open>Lines 93 to 126, for an approved plan.\<close>

definition ExecuteBranch ::
  "'r Library \<Rightarrow> CopilotChatPlanner \<Rightarrow> SKContext \<Rightarrow> ProposedPlan \<Rightarrow> World
     \<Rightarrow> (Exception + string) \<times> World" where
  "ExecuteBranch lib planner context deserializedPlan w =
     (let planJson = Serialize_Plan lib (Plan deserializedPlan)
      in case Plan_FromJson lib planJson of
           Inl e \<Rightarrow> (Inl e, w)
         | Inr plan \<Rightarrow>
             (let w1 = w\<lparr>ExecutorCalls := Suc (ExecutorCalls w)\<rparr>
              in case InvokeAsync lib plan of
                   Inl e \<Rightarrow> (Inl e, w1)
                 | Inr newPlanContext \<Rightarrow>
                     (let functionsUsed =
                            ''FUNCTIONS EXECUTED: '' @ Join ''; '' (GetPlanSteps plan) @ ''.''
                      in case context_index context ''tokenLimit'' of
                           Inl e \<Rightarrow> (Inl e, w1)
                         | Inr text \<Rightarrow>
                             (case int_Parse lib text of
                                Inl e \<Rightarrow> (Inl e, w1)
                              | Inr n \<Rightarrow>
                                  (let tokenLimit =
                                         n - TokenCount lib PromptPreamble
                                           - TokenCount lib PromptPostamble
                                           - TokenCount lib functionsUsed
                                           - TokenCount lib ResultHeader
                                   in case TryExtractJsonFromOpenApiPlanResult lib (Result newPlanContext) w1 of
                                        (Inl e, w2) \<Rightarrow> (Inl e, w2)
                                      | (Inr (extractJsonFromOpenApi, json), w2) \<Rightarrow>
                                          (case (if extractJsonFromOpenApi
                                                 then OptimizeOpenApiSkillJson lib planner json tokenLimit plan
                                                 else Inr (Variables_Input newPlanContext)) of
                                             Inl e \<Rightarrow> (Inl e, w2)
                                           | Inr planResult \<Rightarrow>
                                               (Inr (PromptPreamble @ [CHR 0x0A] @ functionsUsed @ [CHR 0x0A] @
                                                     ResultHeader @ Trim planResult @ [CHR 0x0A] @
                                                     PromptPostamble @ [CHR 0x0A]), w2)))))))"

section \<open>AcquireExternalInformationAsync\<close>

text \<open>
  Lines 89 and 90: the plan of the context variable \<^verbatim>\<open>proposedPlan\<close>. The deserializer is
  called only on a value that is there and is not blank; what it throws is not caught.
\<close>

definition read_proposedPlan :: "'r Library \<Rightarrow> SKContext \<Rightarrow> Exception + ProposedPlan option" where
  "read_proposedPlan lib context =
     (case TryGetValue (Variables context) ''proposedPlan'' of
        None \<Rightarrow> Inr None
      | Some proposedPlanJson \<Rightarrow>
          if \<not> IsNullOrWhiteSpace proposedPlanJson
          then Deserialize_ProposedPlan lib proposedPlanJson
          else Inr None)"

text \<open>
  Lines 77 to 181. The result is the returned string or the exception that leaves the
  method, with the world after the call; \<open>None\<close> is a call that never returns.
\<close>

definition AcquireExternalInformationAsync ::
  "'r Library \<Rightarrow> CopilotChatPlanner \<Rightarrow> string \<Rightarrow> SKContext \<Rightarrow> World
     \<Rightarrow> ((Exception + string) \<times> World) option" where
  "AcquireExternalInformationAsync lib planner userIntent context w =
     (let functions = Kernel_Skills planner
      in if NativeFunctions functions = [] \<and> SemanticFunctions functions = []
         then Some (Inr [], w)
         else case read_proposedPlan lib context of
                Inl e \<Rightarrow> Some (Inl e, w)
              | Inr deserializedPlan \<Rightarrow>
                  (case deserializedPlan of
                     Some approved \<Rightarrow>
                       if State approved = Approved
                       then Some (ExecuteBranch lib planner context approved w)
                       else ProposeBranch (new_PlannerOptions lib) planner userIntent context w
                   | None \<Rightarrow> ProposeBranch (new_PlannerOptions lib) planner userIntent context w))"

section \<open>The merge rule in the words of the specification\<close>

text \<open>
  The reserved name, as the specification words it: \<^verbatim>\<open>INPUT\<close> compared without regard
  to case, that is, five characters of which each is the letter of \<^verbatim>\<open>INPUT\<close> at its place,
  in upper or in lower case.
\<close>

definition spec_reserved_input :: "string \<Rightarrow> bool" where
  "spec_reserved_input name \<longleftrightarrow>
     list_all2 (\<lambda>c letter. c = fst letter \<or> c = snd letter) name
       [(CHR ''I'', CHR ''i''), (CHR ''N'', CHR ''n''), (CHR ''P'', CHR ''p''),
        (CHR ''U'', CHR ''u''), (CHR ''T'', CHR ''t'')]"

text \<open>
  The value a declared parameter has after the merge, as the specification words it: the
  reserved name keeps its value; any other parameter takes the value of the context
  variable of its name when there is one and keeps its own otherwise.
\<close>

definition spec_merged_value :: "ContextVariables \<Rightarrow> string \<Rightarrow> string \<Rightarrow> string" where
  "spec_merged_value variables name v =
     (if spec_reserved_input name then v
      else case TryGetValue variables name of Some x \<Rightarrow> x | None \<Rightarrow> v)"

section \<open>Concrete inputs\<close>

text \<open>
  Inputs at which the theorems below are instantiated: registries with one function and
  with none, the options \<^verbatim>\<open>MissingFunctionError = {AllowRetries: true, MaxRetriesAllowed: 2}\<close>
  with \<^verbatim>\<open>AllowRetriesOnInvalidPlan = true\<close>, planners that fail or answer in a fixed way,
  request contexts, and a world in which nothing has happened yet.
\<close>

definition one_function :: FunctionsView where
  "one_function =
     \<lparr>NativeFunctions = [(''KlarnaPlugin'', [''productsUsingGET''])], SemanticFunctions = []\<rparr>"

definition no_functions :: FunctionsView where
  "no_functions = \<lparr>NativeFunctions = [], SemanticFunctions = []\<rparr>"

definition options_retry2 :: PlannerOptions where
  "options_retry2 =
     \<lparr>Type = Action,
      MissingFunctionError = \<lparr>AllowRetries = True, MaxRetriesAllowed = 2\<rparr>,
      AllowRetriesOnInvalidPlan = True\<rparr>"

definition missing_function :: Exception where
  "missing_function = KernelException FunctionNotAvailable None"

definition invalid_plan :: Exception where
  "invalid_plan = PlanningException InvalidPlan None"

definition one_step_plan :: Plan where
  "one_step_plan =
     \<lparr>Steps = [\<lparr>SkillName = ''KlarnaPlugin'', Name = ''productsUsingGET'',
                StepParameters = [(''INPUT'', ''''), (''q'', ''a''), (''size'', ''b'')]\<rparr>],
      Parameters = [(''INPUT'', ''''), (''q'', ''a''), (''size'', ''b'')]\<rparr>"

definition empty_plan :: Plan where
  "empty_plan = \<lparr>Steps = [], Parameters = [(''INPUT'', '''')]\<rparr>"

definition planner_always_missing :: CopilotChatPlanner where
  "planner_always_missing =
     \<lparr>Kernel_Skills = one_function, PlannerOptions = Some options_retry2,
      CreatePlanAsync = (\<lambda>n goal. Throws missing_function)\<rparr>"

definition planner_without_options :: CopilotChatPlanner where
  "planner_without_options =
     \<lparr>Kernel_Skills = one_function, PlannerOptions = None,
      CreatePlanAsync = (\<lambda>n goal. Throws missing_function)\<rparr>"

definition planner_always_invalid :: CopilotChatPlanner where
  "planner_always_invalid =
     \<lparr>Kernel_Skills = one_function, PlannerOptions = Some options_retry2,
      CreatePlanAsync = (\<lambda>n goal. Throws invalid_plan)\<rparr>"

definition planner_three_missing :: CopilotChatPlanner where
  "planner_three_missing =
     \<lparr>Kernel_Skills = one_function, PlannerOptions = Some options_retry2,
      CreatePlanAsync =
        (\<lambda>n goal. if n < 3 then Throws missing_function else Returns (Some one_step_plan))\<rparr>"

definition planner_empty_plan :: CopilotChatPlanner where
  "planner_empty_plan =
     \<lparr>Kernel_Skills = one_function, PlannerOptions = Some options_retry2,
      CreatePlanAsync = (\<lambda>n goal. Returns (Some empty_plan))\<rparr>"

definition planner_one_step :: CopilotChatPlanner where
  "planner_one_step =
     \<lparr>Kernel_Skills = one_function, PlannerOptions = Some options_retry2,
      CreatePlanAsync = (\<lambda>n goal. Returns (Some one_step_plan))\<rparr>"

definition planner_sequential :: CopilotChatPlanner where
  "planner_sequential =
     \<lparr>Kernel_Skills = one_function,
      PlannerOptions = Some (options_retry2\<lparr>Type := Sequential\<rparr>),
      CreatePlanAsync = (\<lambda>n goal. Returns (Some one_step_plan))\<rparr>"

definition planner_no_functions :: CopilotChatPlanner where
  "planner_no_functions =
     \<lparr>Kernel_Skills = no_functions, PlannerOptions = Some options_retry2,
      CreatePlanAsync = (\<lambda>n goal. Throws missing_function)\<rparr>"

definition new_world :: World where
  "new_world =
     \<lparr>ProposedPlan = None, Log = [], KernelLog = [], PlannerCalls = 0, ExecutorCalls = 0\<rparr>"

definition context_malformed_plan :: SKContext where
  "context_malformed_plan =
     \<lparr>Variables = [(''userIntent'', ''list pulls''), (''proposedPlan'', ''{'')]\<rparr>"

definition context_blank_plan :: SKContext where
  "context_blank_plan =
     \<lparr>Variables = [(''userIntent'', ''list pulls''), (''proposedPlan'', ''  '')]\<rparr>"

definition context_no_plan :: SKContext where
  "context_no_plan = \<lparr>Variables = [(''userIntent'', ''list pulls''), (''owner'', ''x'')]\<rparr>"

definition context_q :: SKContext where
  "context_q =
     \<lparr>Variables = [(''userIntent'', ''find''), (''INPUT'', ''hello''), (''q'', ''x'')]\<rparr>"

definition lowercase_input_plan :: Plan where
  "lowercase_input_plan =
     \<lparr>Steps = [\<lparr>SkillName = ''KlarnaPlugin'', Name = ''productsUsingGET'',
                StepParameters = [(''input'', ''shoes''), (''q'', ''a'')]\<rparr>],
      Parameters = [(''input'', ''shoes''), (''q'', ''a'')]\<rparr>"

definition planner_lowercase_input :: CopilotChatPlanner where
  "planner_lowercase_input =
     \<lparr>Kernel_Skills = one_function, PlannerOptions = Some options_retry2,
      CreatePlanAsync = (\<lambda>n goal. Returns (Some lowercase_input_plan))\<rparr>"

definition context_lowercase_input :: SKContext where
  "context_lowercase_input =
     \<lparr>Variables = [(''userIntent'', ''find''), (''input'', ''hello''), (''q'', ''x'')]\<rparr>"

text \<open>
  A planner whose every answer is an exception that passes the filter and is not a
  \<^verbatim>\<open>PlanningException\<close>.
\<close>

definition retries_unbounded :: "CopilotChatPlanner \<Rightarrow> bool" where
  "retries_unbounded planner \<longleftrightarrow>
     (\<forall>n goal. \<exists>e. CreatePlanAsync planner n goal = Throws e \<and> \<not> is_PlanningException e
        \<and> filter_holds (IsRetriableError planner e))"

text \<open>
  Three documents as the parser presents them, and a library for the concrete inputs: it
  counts one token per character, parses the three documents, serializes a list of items
  by joining their texts, and fails on a proposed plan that is not the text \<^verbatim>\<open>null\<close>.
\<close>

definition results_text :: string where
  \<open>results_text = ''{"results": [1,2,3]}''\<close>

definition number_element :: "string \<Rightarrow> JsonElement" where
  "number_element text = JsonElement Number text text [] []"

definition array_123 :: JsonElement where
  "array_123 =
     JsonElement Array ''[1,2,3]'' ''[1,2,3]'' []
       [number_element ''1'', number_element ''2'', number_element ''3'']"

definition results_document :: JsonElement where
  \<open>results_document =
     JsonElement Object results_text results_text
       [JsonProperty ''results'' ''"results": [1,2,3]'' array_123] []\<close>

definition array_100_20_3 :: JsonElement where
  "array_100_20_3 =
     JsonElement Array ''[100,20,3]'' ''[100,20,3]'' []
       [number_element ''100'', number_element ''20'', number_element ''3'']"

definition demo_parse :: "string \<Rightarrow> Exception + JsonElement" where
  "demo_parse s =
     (if s = results_text then Inr results_document
      else if s = ''[1,2,3]'' then Inr array_123
      else if s = ''[100,20,3]'' then Inr array_100_20_3
      else Inl JsonException)"

definition demo_lib :: "unit Library" where
  "demo_lib =
     \<lparr>TokenCount = (\<lambda>s. word_of_nat (length s)),
      JsonDocument_Parse = demo_parse,
      JsonNode_Parse = (\<lambda>s. Inl JsonException),
      Deserialize_ProposedPlan = (\<lambda>s. if s = ''null'' then Inr None else Inl JsonException),
      Deserialize_Response = (\<lambda>s t. Inr None),
      Serialize_Response = (\<lambda>r. []),
      Serialize_Items = (\<lambda>items. ''['' @ Join '','' (map ItemText items) @ '']''),
      Serialize_Plan = (\<lambda>p. []),
      Plan_FromJson = (\<lambda>s. Inl JsonException),
      InvokeAsync = (\<lambda>p. Inl InvalidOperationException),
      int_Parse = (\<lambda>s. Inl FormatException),
      new_PlannerOptions = options_retry2\<rparr>"

section \<open>Error classification: null dereferences\<close>

lemmas classify_defs =
  IsRetriableError_def retryOnInvalidPlanError_def retryOnMissingFunctionError_def
  has_InvalidPlan_code_def

text \<open>
  Claim C4. \<^verbatim>\<open>IsRetriableError\<close> itself throws \<^verbatim>\<open>NullReferenceException\<close>, instead of
  returning false, for a \<^verbatim>\<open>PlanningException\<close> whose own code is not \<^verbatim>\<open>InvalidPlan\<close> and
  whose inner exception is null or not a \<^verbatim>\<open>PlanningException\<close>; and it throws for every
  error of a retriable shape (invalid plan by its own code or by its inner exception's,
  or function not available) when the planner's \<^verbatim>\<open>PlannerOptions\<close> is null.
\<close>

theorem IsRetriableError_null_dereference:
  "(code \<noteq> InvalidPlan \<and> as_PlanningException inner = None \<longrightarrow>
      IsRetriableError planner (PlanningException code inner) = Inl NullReferenceException)
   \<and> (PlannerOptions planner = None \<longrightarrow>
        IsRetriableError planner (PlanningException InvalidPlan inner) = Inl NullReferenceException
      \<and> IsRetriableError planner (PlanningException code (Some (PlanningException InvalidPlan inner'))) 
            = Inl NullReferenceException
      \<and> IsRetriableError planner (KernelException FunctionNotAvailable inner) = Inl NullReferenceException)"
  by (cases code) (simp_all add: classify_defs)

text \<open>Claim C4, at a planner with options and at one without.\<close>

theorem IsRetriableError_null_dereference_witness:
  "IsRetriableError planner_always_missing (PlanningException OtherPlanningError None) = Inl NullReferenceException
   \<and> IsRetriableError planner_always_missing (PlanningException OtherPlanningError (Some JsonException)) = Inl NullReferenceException
   \<and> IsRetriableError planner_without_options (PlanningException InvalidPlan None) = Inl NullReferenceException
   \<and> IsRetriableError planner_without_options missing_function = Inl NullReferenceException"
  using IsRetriableError_null_dereference [of OtherPlanningError None planner_always_missing]
    IsRetriableError_null_dereference [of OtherPlanningError "Some JsonException" planner_always_missing]
    IsRetriableError_null_dereference [of OtherPlanningError None planner_without_options]
  by (simp add: planner_without_options_def missing_function_def)

section \<open>The planning loop\<close>

lemma CreatePlanLoop_retry:
  assumes "CreatePlanAsync planner (PlannerCalls w) goal = Throws e"
    and "filter_holds (IsRetriableError planner e)" and "0 <s retriesAvail"
  shows "CreatePlanLoop planner goal retriesAvail w =
         CreatePlanLoop planner goal (assign_retriesAvail e retriesAvail)
           (w\<lparr>PlannerCalls := Suc (PlannerCalls w),
              Log := Log w @ [LogWarning retry_template e]\<rparr>)"
  using assms by (subst CreatePlanLoop.simps) simp

lemma CreatePlanLoop_throw:
  assumes "CreatePlanAsync planner (PlannerCalls w) goal = Throws e"
    and "\<not> filter_holds (IsRetriableError planner e) \<or> \<not> 0 <s retriesAvail"
  shows "CreatePlanLoop planner goal retriesAvail w =
         Some (Inl e, retriesAvail, w\<lparr>PlannerCalls := Suc (PlannerCalls w)\<rparr>)"
  using assms by (subst CreatePlanLoop.simps) (auto simp add: Let_def)

lemma CreatePlanLoop_plan:
  assumes "CreatePlanAsync planner (PlannerCalls w) goal = Returns (Some plan)"
  shows "CreatePlanLoop planner goal retriesAvail w =
         Some (Inr plan, retriesAvail, w\<lparr>PlannerCalls := Suc (PlannerCalls w)\<rparr>)"
  using assms by (subst CreatePlanLoop.simps) simp

text \<open>The loop touches the log and the count of planner calls only.\<close>

lemma CreatePlanLoop_frame:
  assumes "CreatePlanLoop planner goal retriesAvail w = Some y"
  shows "ProposedPlan (snd (snd y)) = ProposedPlan w
       \<and> ExecutorCalls (snd (snd y)) = ExecutorCalls w
       \<and> KernelLog (snd (snd y)) = KernelLog w"
proof (rule CreatePlanLoop.raw_induct
    [where P = "\<lambda>p g r w y. ProposedPlan (snd (snd y)) = ProposedPlan w
       \<and> ExecutorCalls (snd (snd y)) = ExecutorCalls w
       \<and> KernelLog (snd (snd y)) = KernelLog w", OF _ assms], goal_cases)
  case (1 f p g r w y)
  show ?case
  proof (cases "CreatePlanAsync p (PlannerCalls w) g")
    case (Returns plan)
    show ?thesis
    proof (cases plan)
      case None
      with 1(2) Returns have "f p g r (w\<lparr>PlannerCalls := Suc (PlannerCalls w)\<rparr>) = Some y"
        by simp
      from 1(1) [OF this] show ?thesis by simp
    next
      case (Some a)
      with 1(2) Returns show ?thesis by auto
    qed
  next
    case (Throws e)
    show ?thesis
    proof (cases "filter_holds (IsRetriableError p e) \<and> 0 <s r")
      case True
      with 1(2) Throws
      have "f p g (assign_retriesAvail e r)
              (w\<lparr>PlannerCalls := Suc (PlannerCalls w), Log := Log w @ [LogWarning retry_template e]\<rparr>)
            = Some y"
        by simp
      from 1(1) [OF this] show ?thesis by simp
    next
      case False
      with 1(2) Throws show ?thesis by (auto simp add: Let_def split: if_splits)
    qed
  qed
qed

text \<open>
  A missing-function retry leaves \<^verbatim>\<open>retriesAvail\<close> as it was, so a planner that answers
  every call with such an error is asked again for ever.
\<close>

lemma CreatePlanLoop_never_returns_aux:
  assumes "CreatePlanLoop planner goal retriesAvail w = Some y"
  shows "\<not> (retries_unbounded planner \<and> 0 <s retriesAvail)"
proof (rule CreatePlanLoop.raw_induct
    [where P = "\<lambda>p g r w y. \<not> (retries_unbounded p \<and> 0 <s r)", OF _ assms], goal_cases)
  case (1 f p g r w y)
  show ?case
  proof
    assume a: "retries_unbounded p \<and> 0 <s r"
    then obtain e where c: "CreatePlanAsync p (PlannerCalls w) g = Throws e"
      "\<not> is_PlanningException e" "filter_holds (IsRetriableError p e)"
      unfolding retries_unbounded_def by blast
    from 1(2) a c
    have "f p g r (w\<lparr>PlannerCalls := Suc (PlannerCalls w),
                     Log := Log w @ [LogWarning retry_template e]\<rparr>) = Some y"
      by (simp add: assign_retriesAvail_def post_decrement_def Let_def)
    then have "\<not> (retries_unbounded p \<and> 0 <s r)" by (rule 1(1))
    with a show False by simp
  qed
qed

lemma CreatePlanLoop_never_returns:
  "retries_unbounded planner \<Longrightarrow> 0 <s retriesAvail \<Longrightarrow>
     CreatePlanLoop planner goal retriesAvail w = None"
  using CreatePlanLoop_never_returns_aux [of planner goal retriesAvail w]
  by (cases "CreatePlanLoop planner goal retriesAvail w") auto

lemma retries_unbounded_always_missing: "retries_unbounded planner_always_missing"
  by (simp add: retries_unbounded_def planner_always_missing_def missing_function_def
      options_retry2_def filter_holds_def classify_defs)

text \<open>
  Claim C1. With \<^verbatim>\<open>MissingFunctionError = {AllowRetries: true, MaxRetriesAllowed: 2}\<close> and
  a planner that raises a missing-function error on every attempt, the claim is that two
  retries are consumed and the third error propagates, so that the loop ends. The code
  does otherwise: the propose branch never returns.
\<close>

theorem missing_function_retries_never_end:
  "ProposeBranch defaultOptions planner_always_missing userIntent context w = None"
proof -
  have "CreatePlanLoop planner_always_missing (planner_goal context userIntent) 2 w = None"
    by (rule CreatePlanLoop_never_returns [OF retries_unbounded_always_missing])
       (simp add: word_sless_alt)
  then show ?thesis
    by (simp add: ProposeBranch_def planner_always_missing_def initial_retriesAvail_def
        options_retry2_def options_or_default_def)
qed

text \<open>Claim C1, at a request without a proposed plan, through the entry point.\<close>

theorem missing_function_retries_never_end_witness:
  "AcquireExternalInformationAsync demo_lib planner_always_missing ''list pulls''
     context_no_plan new_world = None"
  using missing_function_retries_never_end
    [of "new_PlannerOptions demo_lib" "''list pulls''" context_no_plan new_world]
  by (simp add: AcquireExternalInformationAsync_def read_proposedPlan_def TryGetValue_def
      context_no_plan_def planner_always_missing_def one_function_def)

text \<open>
  Three missing-function errors in a row do not exhaust a budget of two: when the fourth
  call succeeds its plan is proposed, after three logged retries.
\<close>

lemma three_missing_then_plan:
  "ProposeBranch defaultOptions planner_three_missing userIntent \<lparr>Variables = []\<rparr> new_world =
     Some (Inr [],
       \<lparr>ProposedPlan = Some \<lparr>Plan = one_step_plan, ProposedType = Action, State = NoOp\<rparr>,
        Log = [LogWarning retry_template missing_function, LogWarning retry_template missing_function,
               LogWarning retry_template missing_function],
        KernelLog = [], PlannerCalls = 4, ExecutorCalls = 0\<rparr>)"
  by (simp add: ProposeBranch_def planner_three_missing_def initial_retriesAvail_def
        options_retry2_def new_world_def options_or_default_def CreatePlanLoop.simps missing_function_def
        filter_holds_def classify_defs assign_retriesAvail_def post_decrement_def
        word_sless_alt merge_into_plan_def MergeContextIntoPlan_def Equals_OrdinalIgnoreCase_def
        ToUpperOrdinal_def TryGetValue_def one_step_plan_def)

lemma invalid_plan_filter_holds:
  assumes "PlannerOptions planner = Some opts" and "AllowRetriesOnInvalidPlan opts"
    and "has_InvalidPlan_code c i = Inr True"
  shows "filter_holds (IsRetriableError planner (PlanningException c i))"
  using assms
  by (simp add: filter_holds_def IsRetriableError_def retryOnInvalidPlanError_def
      retryOnMissingFunctionError_def)

lemma initial_retriesAvail_positive:
  assumes "AllowRetriesOnInvalidPlan opts"
    and "AllowRetries (MissingFunctionError opts) \<Longrightarrow> 0 <s MaxRetriesAllowed (MissingFunctionError opts)"
  shows "0 <s initial_retriesAvail opts"
  using assms by (simp add: initial_retriesAvail_def word_sless_alt)

text \<open>
  From any point of the loop, whatever \<^verbatim>\<open>retriesAvail\<close> is: two invalid-plan errors in a
  row end the loop with the second one, after one retry that sets \<^verbatim>\<open>retriesAvail\<close> to 0.
\<close>

lemma CreatePlanLoop_invalid_plan_twice:
  assumes opts: "PlannerOptions planner = Some opts" "AllowRetriesOnInvalidPlan opts"
    and first: "CreatePlanAsync planner (PlannerCalls w) goal = Throws (PlanningException c1 i1)"
               "has_InvalidPlan_code c1 i1 = Inr True"
    and second: "CreatePlanAsync planner (Suc (PlannerCalls w)) goal = Throws (PlanningException c2 i2)"
               "has_InvalidPlan_code c2 i2 = Inr True"
  shows "CreatePlanLoop planner goal retriesAvail w =
          (if 0 <s retriesAvail
           then Some (Inl (PlanningException c2 i2), 0,
                  w\<lparr>PlannerCalls := PlannerCalls w + 2,
                     Log := Log w @ [LogWarning retry_template (PlanningException c1 i1)]\<rparr>)
           else Some (Inl (PlanningException c1 i1), retriesAvail,
                  w\<lparr>PlannerCalls := PlannerCalls w + 1\<rparr>))"
proof (cases "0 <s retriesAvail")
  case True
  let ?e1 = "PlanningException c1 i1"
  let ?w1 = "w\<lparr>PlannerCalls := Suc (PlannerCalls w), Log := Log w @ [LogWarning retry_template ?e1]\<rparr>"
  have "CreatePlanLoop planner goal retriesAvail w = CreatePlanLoop planner goal 0 ?w1"
    using CreatePlanLoop_retry [OF first(1) invalid_plan_filter_holds [OF opts first(2)] True]
    by (simp add: assign_retriesAvail_def)
  also have "\<dots> = Some (Inl (PlanningException c2 i2), 0, ?w1\<lparr>PlannerCalls := Suc (PlannerCalls ?w1)\<rparr>)"
    by (rule CreatePlanLoop_throw) (use second in simp_all)
  finally show ?thesis using True by simp
next
  case False
  have "CreatePlanLoop planner goal retriesAvail w
        = Some (Inl (PlanningException c1 i1), retriesAvail, w\<lparr>PlannerCalls := Suc (PlannerCalls w)\<rparr>)"
    by (rule CreatePlanLoop_throw) (use first False in simp_all)
  then show ?thesis using False by simp
qed

text \<open>
  Claim C3. With \<^verbatim>\<open>AllowRetriesOnInvalidPlan = true\<close>, whatever the missing-function
  budget is, invalid-plan errors are retried at most once: when the first two attempts
  both raise an invalid-plan error, the second error propagates after exactly one retry
  (one logged warning, two planner calls). The second attempt is made when the initial
  budget is positive, which it is unless \<^verbatim>\<open>MaxRetriesAllowed\<close> is below 1; with no budget
  the first error propagates and nothing is retried.
\<close>

theorem invalid_plan_retried_at_most_once:
  assumes opts: "PlannerOptions planner = Some opts" "AllowRetriesOnInvalidPlan opts"
    and first: "CreatePlanAsync planner (PlannerCalls w) (planner_goal context userIntent)
                  = Throws (PlanningException c1 i1)"
               "has_InvalidPlan_code c1 i1 = Inr True"
    and second: "CreatePlanAsync planner (Suc (PlannerCalls w)) (planner_goal context userIntent)
                  = Throws (PlanningException c2 i2)"
               "has_InvalidPlan_code c2 i2 = Inr True"
  shows "ProposeBranch defaultOptions planner userIntent context w =
          (if 0 <s initial_retriesAvail opts
           then Some (Inl (PlanningException c2 i2),
                  w\<lparr>PlannerCalls := PlannerCalls w + 2,
                     Log := Log w @ [LogWarning retry_template (PlanningException c1 i1)]\<rparr>)
           else Some (Inl (PlanningException c1 i1), w\<lparr>PlannerCalls := PlannerCalls w + 1\<rparr>))"
  using CreatePlanLoop_invalid_plan_twice [OF opts first second, of "initial_retriesAvail opts"] opts
  by (simp add: ProposeBranch_def options_or_default_def)

text \<open>Claim C3, at a planner that raises an invalid-plan error on every attempt.\<close>

theorem invalid_plan_retried_at_most_once_witness:
  "ProposeBranch options_retry2 planner_always_invalid ''list pulls'' context_no_plan new_world =
     Some (Inl invalid_plan,
       new_world\<lparr>PlannerCalls := 2, Log := [LogWarning retry_template invalid_plan]\<rparr>)"
  using invalid_plan_retried_at_most_once [of planner_always_invalid options_retry2 new_world
      context_no_plan "''list pulls''" InvalidPlan None InvalidPlan None options_retry2]
  by (simp add: planner_always_invalid_def invalid_plan_def has_InvalidPlan_code_def
      options_retry2_def initial_retriesAvail_def new_world_def word_sless_alt)

section \<open>The proposed plan\<close>

text \<open>
  Claim C9. When the planner returns a plan with zero steps, the propose branch returns
  the empty string and leaves the \<^verbatim>\<open>ProposedPlan\<close> property as it was; and whenever the
  propose branch changes the property, the stored plan has at least one step.
\<close>

theorem zero_step_plan_is_not_stored:
  "(\<forall>plan r w1.
      CreatePlanLoop planner (planner_goal context userIntent)
        (initial_retriesAvail (options_or_default defaultOptions planner)) w = Some (Inr plan, r, w1)
      \<and> Steps plan = []
      \<longrightarrow> ProposeBranch defaultOptions planner userIntent context w = Some (Inr [], w1)
          \<and> ProposedPlan w1 = ProposedPlan w)
   \<and> (\<forall>res w'.
        ProposeBranch defaultOptions planner userIntent context w = Some (res, w')
        \<and> ProposedPlan w' \<noteq> ProposedPlan w
        \<longrightarrow> (\<exists>stored. ProposedPlan w' = Some stored \<and> Steps (Plan stored) \<noteq> []))"
proof (intro conjI allI impI)
  fix plan r w1
  assume a: "CreatePlanLoop planner (planner_goal context userIntent)
        (initial_retriesAvail (options_or_default defaultOptions planner)) w = Some (Inr plan, r, w1)
      \<and> Steps plan = []"
  then show "ProposeBranch defaultOptions planner userIntent context w = Some (Inr [], w1)"
    by (simp add: ProposeBranch_def)
  from a CreatePlanLoop_frame [of planner "planner_goal context userIntent"
      "initial_retriesAvail (options_or_default defaultOptions planner)" w "(Inr plan, r, w1)"]
  show "ProposedPlan w1 = ProposedPlan w" by simp
next
  fix res w'
  assume b: "ProposeBranch defaultOptions planner userIntent context w = Some (res, w')
        \<and> ProposedPlan w' \<noteq> ProposedPlan w"
  let ?loop = "CreatePlanLoop planner (planner_goal context userIntent)
        (initial_retriesAvail (options_or_default defaultOptions planner)) w"
  from b obtain x r w1 where l: "?loop = Some (x, r, w1)"
    by (cases ?loop) (auto simp add: ProposeBranch_def)
  from CreatePlanLoop_frame [OF l] have fr: "ProposedPlan w1 = ProposedPlan w" by simp
  show "\<exists>stored. ProposedPlan w' = Some stored \<and> Steps (Plan stored) \<noteq> []"
  proof (cases x)
    case (Inl e)
    with b l fr show ?thesis by (auto simp add: ProposeBranch_def)
  next
    case (Inr plan)
    show ?thesis
    proof (cases "Steps plan = []")
      case True
      with b l fr Inr show ?thesis by (auto simp add: ProposeBranch_def)
    next
      case False
      then have "Steps (merge_into_plan (options_or_default defaultOptions planner) context plan) \<noteq> []"
        by (simp add: merge_into_plan_def)
      with b l Inr False show ?thesis by (auto simp add: ProposeBranch_def Let_def)
    qed
  qed
qed

text \<open>
  Claim C9, at a planner that returns a plan without steps and at one that returns a plan
  with one step.
\<close>

theorem zero_step_plan_is_not_stored_witness:
  "ProposeBranch options_retry2 planner_empty_plan ''list pulls'' context_no_plan new_world
     = Some (Inr [], new_world\<lparr>PlannerCalls := 1\<rparr>)
   \<and> ProposedPlan (new_world\<lparr>PlannerCalls := 1\<rparr>) = ProposedPlan new_world
   \<and> (\<exists>stored.
         ProposeBranch options_retry2 planner_one_step ''list pulls'' context_no_plan new_world
           = Some (Inr [], new_world\<lparr>PlannerCalls := 1, ProposedPlan := Some stored\<rparr>)
         \<and> Steps (Plan stored) \<noteq> [])"
proof -
  have "CreatePlanLoop planner_empty_plan (planner_goal context_no_plan ''list pulls'')
          (initial_retriesAvail (options_or_default options_retry2 planner_empty_plan)) new_world
        = Some (Inr empty_plan, 2, new_world\<lparr>PlannerCalls := 1\<rparr>)"
    by (subst CreatePlanLoop.simps)
       (simp add: planner_empty_plan_def new_world_def initial_retriesAvail_def
          options_or_default_def options_retry2_def)
  with zero_step_plan_is_not_stored [of planner_empty_plan context_no_plan "''list pulls''"
      options_retry2 new_world]
  have first:
    "ProposeBranch options_retry2 planner_empty_plan ''list pulls'' context_no_plan new_world
       = Some (Inr [], new_world\<lparr>PlannerCalls := 1\<rparr>)
     \<and> ProposedPlan (new_world\<lparr>PlannerCalls := 1\<rparr>) = ProposedPlan new_world"
    by (simp add: empty_plan_def)
  let ?stored = "\<lparr>Plan = merge_into_plan options_retry2 context_no_plan one_step_plan,
                   ProposedType = Action, State = NoOp\<rparr>"
  let ?w = "new_world\<lparr>PlannerCalls := 1, ProposedPlan := Some ?stored\<rparr>"
  have "CreatePlanLoop planner_one_step (planner_goal context_no_plan ''list pulls'')
          (initial_retriesAvail (options_or_default options_retry2 planner_one_step)) new_world
        = Some (Inr one_step_plan, 2, new_world\<lparr>PlannerCalls := 1\<rparr>)"
    by (subst CreatePlanLoop.simps)
       (simp add: planner_one_step_def new_world_def initial_retriesAvail_def
          options_or_default_def options_retry2_def)
  then have p:
    "ProposeBranch options_retry2 planner_one_step ''list pulls'' context_no_plan new_world
       = Some (Inr [], ?w)"
    by (simp add: ProposeBranch_def one_step_plan_def options_or_default_def
        planner_one_step_def options_retry2_def new_world_def)
  have "ProposedPlan ?w \<noteq> ProposedPlan new_world"
    by (simp add: new_world_def)
  with p zero_step_plan_is_not_stored [of planner_one_step context_no_plan "''list pulls''"
      options_retry2 new_world]
  have "\<exists>stored. ProposedPlan ?w = Some stored \<and> Steps (Plan stored) \<noteq> []"
    by blast
  then have "Steps (Plan ?stored) \<noteq> []" by simp
  with p first show ?thesis by blast
qed

text \<open>
  Claim C10. When the registry has no native and no semantic function, the call returns
  the empty string at once: the world is unchanged (no planner call, no executor call, no
  proposed plan written), whatever the planner, the library and the context are.
\<close>

theorem no_functions_returns_empty:
  "NativeFunctions (Kernel_Skills planner) = [] \<Longrightarrow>
   SemanticFunctions (Kernel_Skills planner) = [] \<Longrightarrow>
     AcquireExternalInformationAsync lib planner userIntent context w = Some (Inr [], w)"
  by (simp add: AcquireExternalInformationAsync_def)

text \<open>Claim C10, at a planner whose registry is empty and whose planning would never end.\<close>

theorem no_functions_returns_empty_witness:
  "AcquireExternalInformationAsync demo_lib planner_no_functions ''list pulls''
     context_malformed_plan new_world = Some (Inr [], new_world)"
  using no_functions_returns_empty
    [of planner_no_functions demo_lib "''list pulls''" context_malformed_plan new_world]
  by (simp add: planner_no_functions_def no_functions_def)

section \<open>The proposed plan of the request\<close>

text \<open>
  Claim C2 says that a \<^verbatim>\<open>proposedPlan\<close> variable whose text fails to deserialize is
  treated as no plan. It is not: the deserializer's exception leaves the call, and the
  propose branch, which would have returned the empty string here, is not taken.
\<close>

theorem malformed_plan_raises:
  "read_proposedPlan demo_lib context_malformed_plan = Inl JsonException
   \<and> AcquireExternalInformationAsync demo_lib planner_empty_plan ''list pulls''
        context_malformed_plan new_world
       = Some (Inl JsonException, new_world)
   \<and> AcquireExternalInformationAsync demo_lib planner_empty_plan ''list pulls''
        context_malformed_plan new_world
       \<noteq> ProposeBranch (new_PlannerOptions demo_lib) planner_empty_plan ''list pulls''
           context_malformed_plan new_world"
  by (simp add: AcquireExternalInformationAsync_def read_proposedPlan_def demo_lib_def
      context_malformed_plan_def TryGetValue_def IsNullOrWhiteSpace_def IsWhiteSpace_def
      planner_empty_plan_def one_function_def ProposeBranch_def CreatePlanLoop.simps
      options_or_default_def empty_plan_def new_world_def)

text \<open>
  Claim C2, amended. With a registry that is not empty: when the \<^verbatim>\<open>proposedPlan\<close>
  variable is absent, is empty or blank, or deserializes to null, the call is the propose
  branch and nothing is raised for the variable; when its text is not blank and the
  deserializer throws, that exception leaves the call and the world is unchanged.
\<close>

theorem absent_or_blank_plan_proposes:
  assumes "NativeFunctions (Kernel_Skills planner) \<noteq> [] \<or> SemanticFunctions (Kernel_Skills planner) \<noteq> []"
  shows "(TryGetValue (Variables context) ''proposedPlan'' = None
          \<or> (\<exists>json. TryGetValue (Variables context) ''proposedPlan'' = Some json
                \<and> (IsNullOrWhiteSpace json \<or> Deserialize_ProposedPlan lib json = Inr None))
        \<longrightarrow> AcquireExternalInformationAsync lib planner userIntent context w
              = ProposeBranch (new_PlannerOptions lib) planner userIntent context w)
      \<and> (\<forall>json e. TryGetValue (Variables context) ''proposedPlan'' = Some json
            \<and> \<not> IsNullOrWhiteSpace json \<and> Deserialize_ProposedPlan lib json = Inl e
          \<longrightarrow> AcquireExternalInformationAsync lib planner userIntent context w = Some (Inl e, w))"
  using assms
  by (auto simp add: AcquireExternalInformationAsync_def read_proposedPlan_def)

text \<open>Claim C2 as amended, at an absent, a blank and a malformed plan.\<close>

theorem absent_or_blank_plan_proposes_witness:
  "AcquireExternalInformationAsync demo_lib planner_empty_plan ''list pulls'' context_no_plan new_world
     = ProposeBranch (new_PlannerOptions demo_lib) planner_empty_plan ''list pulls''
         context_no_plan new_world
   \<and> AcquireExternalInformationAsync demo_lib planner_empty_plan ''list pulls'' context_blank_plan new_world
     = ProposeBranch (new_PlannerOptions demo_lib) planner_empty_plan ''list pulls''
         context_blank_plan new_world
   \<and> AcquireExternalInformationAsync demo_lib planner_empty_plan ''list pulls''
        context_malformed_plan new_world
     = Some (Inl JsonException, new_world)"
proof -
  have r: "NativeFunctions (Kernel_Skills planner_empty_plan) \<noteq> []
           \<or> SemanticFunctions (Kernel_Skills planner_empty_plan) \<noteq> []"
    by (simp add: planner_empty_plan_def one_function_def)
  have a: "TryGetValue (Variables context_no_plan) ''proposedPlan'' = None"
    by (simp add: TryGetValue_def context_no_plan_def)
  have b: "TryGetValue (Variables context_blank_plan) ''proposedPlan'' = Some ''  ''"
    "IsNullOrWhiteSpace ''  ''"
    by (simp_all add: TryGetValue_def context_blank_plan_def IsNullOrWhiteSpace_def
        IsWhiteSpace_def)
  have c: "TryGetValue (Variables context_malformed_plan) ''proposedPlan'' = Some ''{''"
    "\<not> IsNullOrWhiteSpace ''{''" "Deserialize_ProposedPlan demo_lib ''{'' = Inl JsonException"
    by (simp_all add: TryGetValue_def context_malformed_plan_def IsNullOrWhiteSpace_def
        IsWhiteSpace_def demo_lib_def)
  from absent_or_blank_plan_proposes [OF r, of context_no_plan demo_lib "''list pulls''" new_world] a
    absent_or_blank_plan_proposes [OF r, of context_blank_plan demo_lib "''list pulls''" new_world] b
    absent_or_blank_plan_proposes [OF r, of context_malformed_plan demo_lib "''list pulls''" new_world] c
  show ?thesis by simp
qed

section \<open>Merging context variables into plan parameters\<close>

lemma map_of_Set_Variable: "map_of (Set_Variable name v ps) = (map_of ps)(name \<mapsto> v)"
  by (induction ps) auto

lemma map_fst_Set_Variable:
  "name \<in> fst ` set ps \<Longrightarrow> map fst (Set_Variable name v ps) = map fst ps"
  by (induction ps) auto

lemma map_fst_MergeLoop:
  "fst ` set es \<subseteq> fst ` set ps \<Longrightarrow> map fst (MergeLoop variables es ps) = map fst ps"
proof (induction es arbitrary: ps)
  case Nil
  then show ?case by simp
next
  case (Cons e es)
  then have k: "fst e \<in> fst ` set ps" and sub: "fst ` set es \<subseteq> fst ` set ps" by auto
  show ?case
  proof (cases "Equals_OrdinalIgnoreCase (fst e) ''INPUT''")
    case True
    with Cons.IH [OF sub] show ?thesis by simp
  next
    case False
    show ?thesis
    proof (cases "TryGetValue variables (fst e)")
      case None
      with False Cons.IH [OF sub] show ?thesis by simp
    next
      case (Some x)
      have names: "map fst (Set_Variable (fst e) x ps) = map fst ps"
        by (rule map_fst_Set_Variable [OF k])
      then have "fst ` set (Set_Variable (fst e) x ps) = fst ` set ps"
        by (metis list.set_map)
      with sub have "fst ` set es \<subseteq> fst ` set (Set_Variable (fst e) x ps)" by simp
      from Cons.IH [OF this] names False Some show ?thesis by simp
    qed
  qed
qed

lemma map_of_MergeLoop:
  "map_of (MergeLoop variables es ps) name =
     (if name \<in> fst ` set es \<and> \<not> Equals_OrdinalIgnoreCase name ''INPUT''
         \<and> TryGetValue variables name \<noteq> None
      then TryGetValue variables name else map_of ps name)"
proof (induction es arbitrary: ps)
  case Nil
  then show ?case by simp
next
  case (Cons e es)
  show ?case
  proof (cases "Equals_OrdinalIgnoreCase (fst e) ''INPUT''")
    case True
    with Cons.IH [of ps] show ?thesis by auto
  next
    case False
    show ?thesis
    proof (cases "TryGetValue variables (fst e)")
      case None
      with False Cons.IH [of ps] show ?thesis by auto
    next
      case (Some x)
      with False Cons.IH [of "Set_Variable (fst e) x ps"] show ?thesis
        by (auto simp add: map_of_Set_Variable)
    qed
  qed
qed

text \<open>
  The comparison of the source with \<^verbatim>\<open>INPUT\<close> holds for exactly the spellings of the
  reserved name.
\<close>

lemma char_of_eq_small:
  fixes n :: nat
  assumes "n < 256"
  shows "char_of n = c \<longleftrightarrow> n = of_char c"
proof -
  have "char_of n = c \<longleftrightarrow> n mod 256 = of_char c"
    by (simp only: char_of_eq_iff take_bit_eq_mod) simp
  with assms show ?thesis by simp
qed

lemma ToUpperOrdinal_eq_upper:
  fixes k :: nat
  assumes u: "of_char u = k" "of_char l = k + 32" "65 \<le> k" "k \<le> 90"
  shows "ToUpperOrdinal c = u \<longleftrightarrow> c = u \<or> c = l"
proof -
  define n where "n = (of_char c :: nat)"
  have b: "n < 256" by (simp add: n_def)
  have eq: "c = u \<longleftrightarrow> n = k"
    unfolding n_def u(1) [symmetric] by (simp only: of_char_eq_iff)
  have low: "c = l \<longleftrightarrow> n = k + 32"
    unfolding n_def u(2) [symmetric] by (simp only: of_char_eq_iff)
  show ?thesis
  proof (cases "(97 \<le> n \<and> n \<le> 122) \<or> (224 \<le> n \<and> n \<le> 254 \<and> n \<noteq> 247)")
    case True
    then have t: "ToUpperOrdinal c = char_of (n - 32)"
      unfolding n_def by (simp add: ToUpperOrdinal_def Let_def)
    have "n - 32 < 256" using b by arith
    then have "char_of (n - 32) = u \<longleftrightarrow> n - 32 = of_char u" by (rule char_of_eq_small)
    then have "ToUpperOrdinal c = u \<longleftrightarrow> n - 32 = k" using t u(1) by simp
    moreover have "n - 32 = k \<longleftrightarrow> n = k \<or> n = k + 32" using True u(3,4) by arith
    ultimately show ?thesis using eq low by simp
  next
    case False
    then have "ToUpperOrdinal c = c"
      unfolding n_def by (auto simp add: ToUpperOrdinal_def Let_def)
    moreover have "n \<noteq> k + 32" using False u(3,4) by arith
    ultimately show ?thesis using eq low by simp
  qed
qed

lemma ToUpperOrdinal_INPUT_letters:
  "ToUpperOrdinal c = CHR ''I'' \<longleftrightarrow> c = CHR ''I'' \<or> c = CHR ''i''"
  "ToUpperOrdinal c = CHR ''N'' \<longleftrightarrow> c = CHR ''N'' \<or> c = CHR ''n''"
  "ToUpperOrdinal c = CHR ''P'' \<longleftrightarrow> c = CHR ''P'' \<or> c = CHR ''p''"
  "ToUpperOrdinal c = CHR ''U'' \<longleftrightarrow> c = CHR ''U'' \<or> c = CHR ''u''"
  "ToUpperOrdinal c = CHR ''T'' \<longleftrightarrow> c = CHR ''T'' \<or> c = CHR ''t''"
  by (rule ToUpperOrdinal_eq_upper [where k = 73], simp_all)
     (rule ToUpperOrdinal_eq_upper [where k = 78], simp_all,
      rule ToUpperOrdinal_eq_upper [where k = 80], simp_all,
      rule ToUpperOrdinal_eq_upper [where k = 85], simp_all,
      rule ToUpperOrdinal_eq_upper [where k = 84], simp_all)

lemma map_ToUpperOrdinal_INPUT: "map ToUpperOrdinal ''INPUT'' = ''INPUT''"
  by (simp add: ToUpperOrdinal_def char_of_eq_small)

lemma Equals_OrdinalIgnoreCase_INPUT:
  "Equals_OrdinalIgnoreCase name ''INPUT'' \<longleftrightarrow> spec_reserved_input name"
proof -
  have "Equals_OrdinalIgnoreCase name ''INPUT'' \<longleftrightarrow> map ToUpperOrdinal name = ''INPUT''"
    by (simp only: Equals_OrdinalIgnoreCase_def map_ToUpperOrdinal_INPUT)
  also have "\<dots> \<longleftrightarrow> spec_reserved_input name"
    by (auto simp add: spec_reserved_input_def map_eq_Cons_conv list_all2_Cons2
        ToUpperOrdinal_INPUT_letters)
  finally show ?thesis .
qed

lemma TryGetValue_MergeContextIntoPlan:
  "TryGetValue (MergeContextIntoPlan variables planParams) name =
     map_option (spec_merged_value variables name) (TryGetValue planParams name)"
proof (cases "map_of planParams name")
  case None
  then have "name \<notin> fst ` set planParams" by (simp add: map_of_eq_None_iff)
  with None show ?thesis
    by (simp add: TryGetValue_def MergeContextIntoPlan_def map_of_MergeLoop)
next
  case (Some v)
  then have "name \<in> fst ` set planParams" by (metis map_of_eq_None_iff option.distinct(1))
  with Some show ?thesis
    by (auto simp add: TryGetValue_def MergeContextIntoPlan_def map_of_MergeLoop
        spec_merged_value_def Equals_OrdinalIgnoreCase_INPUT)
qed

lemma map_fst_MergeContextIntoPlan:
  "map fst (MergeContextIntoPlan variables planParams) = map fst planParams"
  by (simp add: MergeContextIntoPlan_def map_fst_MergeLoop)

lemma ProposeBranch_stores_merged_plan:
  assumes "CreatePlanLoop planner (planner_goal c userIntent)
             (initial_retriesAvail (options_or_default defaultOptions planner)) w
           = Some (Inr plan, r, w1)"
    and "Steps plan \<noteq> []"
  shows "ProposeBranch defaultOptions planner userIntent c w =
           Some (Inr [],
             w1\<lparr>ProposedPlan :=
                  Some \<lparr>Plan = merge_into_plan (options_or_default defaultOptions planner) c plan,
                        ProposedType = Type (options_or_default defaultOptions planner),
                        State = NoOp\<rparr>\<rparr>)"
  using assms by (simp add: ProposeBranch_def Let_def)

text \<open>
  Claim C7. For every plan with at least one step that the planner returns in the propose
  branch, the plan stored as the proposed plan is the merged one. The merge keeps the
  declared parameter names as they are, in their order, so that no name is added; every
  declared parameter has afterwards the value the merge rule gives it (its own for the
  reserved name \<^verbatim>\<open>INPUT\<close> in any spelling of upper and lower case, the context variable's
  value when one of that name exists, its own otherwise); and the merge is applied to the
  top-level parameters of the plan for the \<^verbatim>\<open>Action\<close> kind and to the parameters of every
  step otherwise.
\<close>

theorem merge_overwrites_declared_parameters:
  "map fst (MergeContextIntoPlan variables planParams) = map fst planParams
   \<and> (\<forall>name. TryGetValue (MergeContextIntoPlan variables planParams) name =
         map_option (spec_merged_value variables name) (TryGetValue planParams name))
   \<and> (Type opts = Action \<longrightarrow>
         Parameters (merge_into_plan opts c plan) = MergeContextIntoPlan (Variables c) (Parameters plan)
       \<and> Steps (merge_into_plan opts c plan) = Steps plan)
   \<and> (Type opts \<noteq> Action \<longrightarrow>
         Parameters (merge_into_plan opts c plan) = Parameters plan
       \<and> Steps (merge_into_plan opts c plan) =
           map (\<lambda>step. step\<lparr>StepParameters := MergeContextIntoPlan (Variables c) (StepParameters step)\<rparr>)
             (Steps plan))
   \<and> (\<forall>returned r w1.
         CreatePlanLoop planner (planner_goal c userIntent)
           (initial_retriesAvail (options_or_default defaultOptions planner)) w
           = Some (Inr returned, r, w1)
         \<and> Steps returned \<noteq> []
         \<longrightarrow> ProposeBranch defaultOptions planner userIntent c w =
               Some (Inr [],
                 w1\<lparr>ProposedPlan :=
                      Some \<lparr>Plan = merge_into_plan (options_or_default defaultOptions planner) c returned,
                            ProposedType = Type (options_or_default defaultOptions planner),
                            State = NoOp\<rparr>\<rparr>))"
proof -
  have merge: "map fst (MergeContextIntoPlan variables planParams) = map fst planParams
   \<and> (\<forall>name. TryGetValue (MergeContextIntoPlan variables planParams) name =
         map_option (spec_merged_value variables name) (TryGetValue planParams name))
   \<and> (Type opts = Action \<longrightarrow>
         Parameters (merge_into_plan opts c plan) = MergeContextIntoPlan (Variables c) (Parameters plan)
       \<and> Steps (merge_into_plan opts c plan) = Steps plan)
   \<and> (Type opts \<noteq> Action \<longrightarrow>
         Parameters (merge_into_plan opts c plan) = Parameters plan
       \<and> Steps (merge_into_plan opts c plan) =
           map (\<lambda>step. step\<lparr>StepParameters := MergeContextIntoPlan (Variables c) (StepParameters step)\<rparr>)
             (Steps plan))"
    by (simp add: TryGetValue_MergeContextIntoPlan map_fst_MergeContextIntoPlan
        merge_into_plan_def)
  have stored: "\<forall>returned r w1.
         CreatePlanLoop planner (planner_goal c userIntent)
           (initial_retriesAvail (options_or_default defaultOptions planner)) w
           = Some (Inr returned, r, w1)
         \<and> Steps returned \<noteq> []
         \<longrightarrow> ProposeBranch defaultOptions planner userIntent c w =
               Some (Inr [],
                 w1\<lparr>ProposedPlan :=
                      Some \<lparr>Plan = merge_into_plan (options_or_default defaultOptions planner) c returned,
                            ProposedType = Type (options_or_default defaultOptions planner),
                            State = NoOp\<rparr>\<rparr>)"
    by (blast intro: ProposeBranch_stores_merged_plan)
  from merge stored show ?thesis by blast
qed

text \<open>
  Claim C7, through the propose branch: at the parameters \<^verbatim>\<open>INPUT\<close>, \<^verbatim>\<open>q\<close> and \<^verbatim>\<open>size\<close>
  with the context variables \<^verbatim>\<open>userIntent\<close>, \<^verbatim>\<open>INPUT\<close> and \<^verbatim>\<open>q\<close> for both plan kinds, and at
  a plan that spells the reserved parameter \<^verbatim>\<open>input\<close> with a context variable of that
  name.
\<close>

theorem merge_overwrites_declared_parameters_witness:
  "ProposeBranch options_retry2 planner_one_step ''find'' context_q new_world =
     Some (Inr [],
       new_world\<lparr>PlannerCalls := 1,
         ProposedPlan := Some
           \<lparr>Plan = one_step_plan\<lparr>Parameters := [(''INPUT'', ''''), (''q'', ''x''), (''size'', ''b'')]\<rparr>,
            ProposedType = Action, State = NoOp\<rparr>\<rparr>)
   \<and> ProposeBranch options_retry2 planner_sequential ''find'' context_q new_world =
     Some (Inr [],
       new_world\<lparr>PlannerCalls := 1,
         ProposedPlan := Some
           \<lparr>Plan = one_step_plan
              \<lparr>Steps := [\<lparr>SkillName = ''KlarnaPlugin'', Name = ''productsUsingGET'',
                          StepParameters = [(''INPUT'', ''''), (''q'', ''x''), (''size'', ''b'')]\<rparr>]\<rparr>,
            ProposedType = Sequential, State = NoOp\<rparr>\<rparr>)
   \<and> ProposeBranch options_retry2 planner_lowercase_input ''find'' context_lowercase_input new_world =
     Some (Inr [],
       new_world\<lparr>PlannerCalls := 1,
         ProposedPlan := Some
           \<lparr>Plan = lowercase_input_plan\<lparr>Parameters := [(''input'', ''shoes''), (''q'', ''x'')]\<rparr>,
            ProposedType = Action, State = NoOp\<rparr>\<rparr>)
   \<and> TryGetValue (MergeContextIntoPlan (Variables context_q) (Parameters one_step_plan)) ''userIntent''
     = None
   \<and> map fst (MergeContextIntoPlan (Variables context_q) (Parameters one_step_plan))
     = [''INPUT'', ''q'', ''size'']"
proof -
  have m: "MergeContextIntoPlan (Variables context_q) [(''INPUT'', ''''), (''q'', ''a''), (''size'', ''b'')]
     = [(''INPUT'', ''''), (''q'', ''x''), (''size'', ''b'')]"
    by (simp add: MergeContextIntoPlan_def context_q_def TryGetValue_def
        Equals_OrdinalIgnoreCase_def ToUpperOrdinal_def)
  have l: "MergeContextIntoPlan (Variables context_lowercase_input) [(''input'', ''shoes''), (''q'', ''a'')]
     = [(''input'', ''shoes''), (''q'', ''x'')]"
    by (simp add: MergeContextIntoPlan_def context_lowercase_input_def TryGetValue_def
        Equals_OrdinalIgnoreCase_def ToUpperOrdinal_def char_of_eq_small)
  have loop1: "CreatePlanLoop planner_one_step (planner_goal context_q ''find'')
          (initial_retriesAvail (options_or_default options_retry2 planner_one_step)) new_world
        = Some (Inr one_step_plan, 2, new_world\<lparr>PlannerCalls := 1\<rparr>)"
    by (subst CreatePlanLoop.simps)
       (simp add: planner_one_step_def new_world_def initial_retriesAvail_def
          options_or_default_def options_retry2_def)
  have loop2: "CreatePlanLoop planner_sequential (planner_goal context_q ''find'')
          (initial_retriesAvail (options_or_default options_retry2 planner_sequential)) new_world
        = Some (Inr one_step_plan, 2, new_world\<lparr>PlannerCalls := 1\<rparr>)"
    by (subst CreatePlanLoop.simps)
       (simp add: planner_sequential_def new_world_def initial_retriesAvail_def
          options_or_default_def options_retry2_def)
  have loop3: "CreatePlanLoop planner_lowercase_input (planner_goal context_lowercase_input ''find'')
          (initial_retriesAvail (options_or_default options_retry2 planner_lowercase_input)) new_world
        = Some (Inr lowercase_input_plan, 2, new_world\<lparr>PlannerCalls := 1\<rparr>)"
    by (subst CreatePlanLoop.simps)
       (simp add: planner_lowercase_input_def new_world_def initial_retriesAvail_def
          options_or_default_def options_retry2_def)
  note t1 = merge_overwrites_declared_parameters
      [of "Variables context_q" "Parameters one_step_plan" options_retry2 context_q one_step_plan
          planner_one_step "''find''" options_retry2 new_world]
  note t2 = merge_overwrites_declared_parameters
      [of "Variables context_q" "Parameters one_step_plan" "options_retry2\<lparr>Type := Sequential\<rparr>"
          context_q one_step_plan planner_sequential "''find''" options_retry2 new_world]
  note t3 = merge_overwrites_declared_parameters
      [of "Variables context_lowercase_input" "Parameters lowercase_input_plan" options_retry2
          context_lowercase_input lowercase_input_plan planner_lowercase_input "''find''"
          options_retry2 new_world]
  have s1: "Steps one_step_plan \<noteq> []" and s3: "Steps lowercase_input_plan \<noteq> []"
    by (simp_all add: one_step_plan_def lowercase_input_plan_def)
  from t1 loop1 s1
  have p1: "ProposeBranch options_retry2 planner_one_step ''find'' context_q new_world =
     Some (Inr [],
       new_world\<lparr>PlannerCalls := 1,
         ProposedPlan := Some
           \<lparr>Plan = merge_into_plan (options_or_default options_retry2 planner_one_step) context_q one_step_plan,
            ProposedType = Type (options_or_default options_retry2 planner_one_step),
            State = NoOp\<rparr>\<rparr>)"
    by simp
  from t2 loop2 s1
  have p2: "ProposeBranch options_retry2 planner_sequential ''find'' context_q new_world =
     Some (Inr [],
       new_world\<lparr>PlannerCalls := 1,
         ProposedPlan := Some
           \<lparr>Plan = merge_into_plan (options_or_default options_retry2 planner_sequential) context_q one_step_plan,
            ProposedType = Type (options_or_default options_retry2 planner_sequential),
            State = NoOp\<rparr>\<rparr>)"
    by simp
  from t3 loop3 s3
  have p3: "ProposeBranch options_retry2 planner_lowercase_input ''find'' context_lowercase_input new_world =
     Some (Inr [],
       new_world\<lparr>PlannerCalls := 1,
         ProposedPlan := Some
           \<lparr>Plan = merge_into_plan (options_or_default options_retry2 planner_lowercase_input)
                    context_lowercase_input lowercase_input_plan,
            ProposedType = Type (options_or_default options_retry2 planner_lowercase_input),
            State = NoOp\<rparr>\<rparr>)"
    by simp
  have o1: "options_or_default options_retry2 planner_one_step = options_retry2"
    and o2: "options_or_default options_retry2 planner_sequential = options_retry2\<lparr>Type := Sequential\<rparr>"
    and o3: "options_or_default options_retry2 planner_lowercase_input = options_retry2"
    by (simp_all add: options_or_default_def planner_one_step_def planner_sequential_def
        planner_lowercase_input_def)
  have q1: "merge_into_plan options_retry2 context_q one_step_plan
      = one_step_plan\<lparr>Parameters := [(''INPUT'', ''''), (''q'', ''x''), (''size'', ''b'')]\<rparr>"
    using t1 m by (simp add: options_retry2_def one_step_plan_def merge_into_plan_def)
  have q2: "merge_into_plan (options_retry2\<lparr>Type := Sequential\<rparr>) context_q one_step_plan
      = one_step_plan
              \<lparr>Steps := [\<lparr>SkillName = ''KlarnaPlugin'', Name = ''productsUsingGET'',
                          StepParameters = [(''INPUT'', ''''), (''q'', ''x''), (''size'', ''b'')]\<rparr>]\<rparr>"
    using t2 m by (simp add: options_retry2_def one_step_plan_def merge_into_plan_def)
  have q3: "merge_into_plan options_retry2 context_lowercase_input lowercase_input_plan
      = lowercase_input_plan\<lparr>Parameters := [(''input'', ''shoes''), (''q'', ''x'')]\<rparr>"
    using t3 l by (simp add: options_retry2_def lowercase_input_plan_def merge_into_plan_def)
  have r: "TryGetValue (MergeContextIntoPlan (Variables context_q) (Parameters one_step_plan)) ''userIntent''
     = None
   \<and> map fst (MergeContextIntoPlan (Variables context_q) (Parameters one_step_plan))
     = [''INPUT'', ''q'', ''size'']"
    using t1 by (simp add: one_step_plan_def TryGetValue_def)
  have ty: "Type options_retry2 = Action"
    "Type (options_retry2\<lparr>Type := Sequential\<rparr>) = Sequential"
    by (simp_all add: options_retry2_def)
  from p1 p2 p3 r show ?thesis
    unfolding o1 o2 o3 q1 q2 q3 ty by simp
qed

section \<open>The result optimizer\<close>

lemma clean_results_text: "remove_newlines (Trim results_text) = results_text"
  by (simp add: results_text_def Trim_def remove_newlines_def IsWhiteSpace_def)

lemma length_results_text: "length results_text = 20"
  by (simp add: results_text_def)

lemma TokenCount_demo_lib: "TokenCount demo_lib s = word_of_nat (length s)"
  by (simp add: demo_lib_def)

lemma Serialize_Items_demo_lib:
  "Serialize_Items demo_lib items = ''['' @ Join '','' (map ItemText items) @ '']''"
  by (simp add: demo_lib_def)

lemma prepare_json_untrimmed:
  assumes "JsonDocument_Parse lib (remove_newlines (Trim jsonContent)) = Inr document"
    and "Steps plan \<noteq> []"
    and "SkillName (last (Steps plan)) \<noteq> ''GitHubPlugin''"
    and "SkillName (last (Steps plan)) \<noteq> ''JiraPlugin''"
  shows "prepare_json lib jsonContent plan =
           Inr (SkillName (last (Steps plan)), remove_newlines (Trim jsonContent), document)"
  using assms by (simp add: prepare_json_def GetOpenApiSkillResponseType_def)

lemma prepare_json_lastSkillInvoked:
  assumes "prepare_json lib jsonContent plan = Inr (lastSkillInvoked, content, document)"
  shows "lastSkillInvoked = SkillName (last (Steps plan))"
  using assms
  by (auto simp add: prepare_json_def Let_def split: sum.splits if_splits prod.splits)

lemma prepare_json_results:
  "prepare_json demo_lib results_text one_step_plan = Inr (''KlarnaPlugin'', results_text, results_document)"
proof -
  have "JsonDocument_Parse demo_lib (remove_newlines (Trim results_text)) = Inr results_document"
    by (simp add: clean_results_text demo_lib_def demo_parse_def)
  from prepare_json_untrimmed [OF this, of one_step_plan]
  show ?thesis by (simp add: one_step_plan_def clean_results_text)
qed


lemma unwrap_results:
  "unwrap_single_property demo_lib results_document L = Inr (array_123, L - 7, ''results: '')"
  by (simp add: unwrap_single_property_def results_document_def demo_lib_def demo_parse_def
      array_123_def results_text_def)

lemma over_budget_results:
  "OptimizeOpenApiSkillJson demo_lib planner results_text 20 one_step_plan = Inr ''results: [1,2,3]''"
  by (simp add: OptimizeOpenApiSkillJson_def prepare_json_results truncate_json_def
      length_results_text word_sless_alt unwrap_results accumulate_document_def array_123_def
      item_cost_def number_element_def TokenCount_demo_lib Serialize_Items_demo_lib)

text \<open>
  Claim C5 says that \<^verbatim>\<open>{"results": [1,2,3]}\<close> with an ample token limit comes back as
  \<^verbatim>\<open>results: [1,2,3]\<close>. It comes back unchanged: with one token per character and a limit
  of 1000 the result is the input text.
\<close>

theorem under_budget_is_not_unwrapped:
  "OptimizeOpenApiSkillJson demo_lib planner_one_step results_text 1000 one_step_plan = Inr results_text
   \<and> OptimizeOpenApiSkillJson demo_lib planner_one_step results_text 1000 one_step_plan
        \<noteq> Inr ''results: [1,2,3]''"
  by (simp add: OptimizeOpenApiSkillJson_def prepare_json_results truncate_json_def
      TokenCount_demo_lib length_results_text word_sless_alt) (simp add: results_text_def)

text \<open>
  Claim C5, amended. When the content parses, the last skill of the plan is neither
  \<^verbatim>\<open>GitHubPlugin\<close> nor \<^verbatim>\<open>JiraPlugin\<close>, and the token count of the content is below the
  limit, the optimizer returns the content (trimmed, without line breaks) unchanged. The
  single property is unwrapped only when the content is not below the limit: with one
  token per character and a limit of 20, \<^verbatim>\<open>{"results": [1,2,3]}\<close> gives
  \<^verbatim>\<open>results: [1,2,3]\<close>.
\<close>

theorem under_budget_content_returned_unchanged:
  "(JsonDocument_Parse lib (remove_newlines (Trim jsonContent)) = Inr document
    \<and> Steps plan \<noteq> []
    \<and> SkillName (last (Steps plan)) \<noteq> ''GitHubPlugin''
    \<and> SkillName (last (Steps plan)) \<noteq> ''JiraPlugin''
    \<and> TokenCount lib (remove_newlines (Trim jsonContent)) <s tokenLimit
    \<longrightarrow> OptimizeOpenApiSkillJson lib planner jsonContent tokenLimit plan
          = Inr (remove_newlines (Trim jsonContent)))
   \<and> OptimizeOpenApiSkillJson demo_lib planner results_text 20 one_step_plan
        = Inr ''results: [1,2,3]''"
proof (intro conjI impI)
  assume a: "JsonDocument_Parse lib (remove_newlines (Trim jsonContent)) = Inr document
    \<and> Steps plan \<noteq> []
    \<and> SkillName (last (Steps plan)) \<noteq> ''GitHubPlugin''
    \<and> SkillName (last (Steps plan)) \<noteq> ''JiraPlugin''
    \<and> TokenCount lib (remove_newlines (Trim jsonContent)) <s tokenLimit"
  then have "prepare_json lib jsonContent plan =
      Inr (SkillName (last (Steps plan)), remove_newlines (Trim jsonContent), document)"
    by (simp add: prepare_json_untrimmed)
  with a show "OptimizeOpenApiSkillJson lib planner jsonContent tokenLimit plan
          = Inr (remove_newlines (Trim jsonContent))"
    by (simp add: OptimizeOpenApiSkillJson_def truncate_json_def)
next
  show "OptimizeOpenApiSkillJson demo_lib planner results_text 20 one_step_plan
        = Inr ''results: [1,2,3]''"
    by (rule over_budget_results)
qed

text \<open>Claim C5 as amended, at \<^verbatim>\<open>{"results": [1,2,3]}\<close> and a limit of 21 tokens.\<close>

theorem under_budget_content_returned_unchanged_witness:
  "OptimizeOpenApiSkillJson demo_lib planner_one_step results_text 21 one_step_plan = Inr results_text"
  using under_budget_content_returned_unchanged
    [of demo_lib results_text results_document one_step_plan 21 planner_one_step]
  by (simp add: clean_results_text TokenCount_demo_lib length_results_text word_sless_alt
      one_step_plan_def demo_lib_def demo_parse_def)


lemma accumulate_document_items:
  "ValueKind document = Object \<or> ValueKind document = Array \<Longrightarrow>
     accumulate_document lib document L = accumulate (item_cost lib) (document_items document) ([], L)"
  by (auto simp add: accumulate_document_def document_items_def)



lemma sint_diff_in_range:
  fixes a b :: int32
  assumes "- (2 ^ 31) \<le> sint a - sint b" and "sint a - sint b < 2 ^ 31"
  shows "sint (a - b) = sint a - sint b"
  using assms by (simp add: sint_word_ariths signed_take_bit_int_eq_self)

text \<open>
  A limit that is zero or negative selects nothing, as long as the subtraction of the
  first cost does not wrap around.
\<close>

lemma nonpositive_limit_selects_nothing:
  assumes "sint tokenLimit \<le> 0"
    and "\<forall>x\<in>set xs. 0 \<le> sint (cost x) \<and> - (2 ^ 31) \<le> sint tokenLimit - sint (cost x)"
  shows "accumulate cost xs ([], tokenLimit) = ([], tokenLimit)"
proof (cases xs)
  case Nil
  then show ?thesis by simp
next
  case (Cons x ys)
  with assms have "0 \<le> sint (cost x)" "- (2 ^ 31) \<le> sint tokenLimit - sint (cost x)" by simp_all
  with assms(1) have "sint (tokenLimit - cost x) = sint tokenLimit - sint (cost x)"
    by (intro sint_diff_in_range) simp_all
  with assms(1) \<open>0 \<le> sint (cost x)\<close> have "\<not> 0 <s tokenLimit - cost x"
    by (simp add: word_sless_alt)
  with Cons show ?thesis by simp
qed

lemma accumulate_document_nonpositive:
  assumes "sint tokenLimit \<le> 0"
    and "\<forall>item\<in>set (document_items document).
           0 \<le> sint (item_cost lib item) \<and> - (2 ^ 31) \<le> sint tokenLimit - sint (item_cost lib item)"
  shows "fst (accumulate_document lib document tokenLimit) = []"
proof (cases "ValueKind document = Object \<or> ValueKind document = Array")
  case True
  then have "accumulate_document lib document tokenLimit =
      accumulate (item_cost lib) (document_items document) ([], tokenLimit)"
    by (rule accumulate_document_items)
  with nonpositive_limit_selects_nothing [OF assms] show ?thesis by simp
next
  case False
  then show ?thesis by (simp add: accumulate_document_def)
qed

lemma nonnegative_count_not_below:
  fixes c L :: int32
  assumes "sint L \<le> 0" and "0 \<le> sint c"
  shows "\<not> c <s L"
  using assms by (simp add: word_sless_alt)

text \<open>
  Claim C8. Whenever the content is not below the limit and the accumulation selects no
  item, for every token limit, zero and negative ones included, the optimizer returns the
  message that the response is too large, naming \<^verbatim>\<open>plan\<close> when the planner's type is
  \<^verbatim>\<open>Sequential\<close> and the skill of the plan's last step otherwise. In particular a limit
  that is zero or negative, with token counts that are not negative, gives that message
  as long as no subtraction wraps around. The optimizer is a total function: it ends on
  every input, and its 32-bit subtractions wrap silently instead of raising.
\<close>

theorem empty_accumulation_returns_too_large_message:
  "(prepare_json lib jsonContent plan = Inr (lastSkillInvoked, content, document)
    \<and> \<not> TokenCount lib content <s tokenLimit
    \<and> unwrap_single_property lib document tokenLimit = Inr (document1, tokenLimit1, resultsDescriptor)
    \<and> fst (accumulate_document lib document1 tokenLimit1) = []
    \<longrightarrow> OptimizeOpenApiSkillJson lib planner jsonContent tokenLimit plan =
          Inr (too_large_message
                 (if map_option Type (PlannerOptions planner) = Some Sequential then ''plan''
                  else SkillName (last (Steps plan)))))
   \<and> (prepare_json lib jsonContent plan = Inr (lastSkillInvoked, content, document)
       \<and> unwrap_single_property lib document tokenLimit = Inr (document1, tokenLimit1, resultsDescriptor)
       \<and> sint tokenLimit \<le> 0 \<and> 0 \<le> sint (TokenCount lib content) \<and> sint tokenLimit1 \<le> 0
       \<and> (\<forall>item\<in>set (document_items document1).
             0 \<le> sint (item_cost lib item)
             \<and> - (2 ^ 31) \<le> sint tokenLimit1 - sint (item_cost lib item))
       \<longrightarrow> OptimizeOpenApiSkillJson lib planner jsonContent tokenLimit plan =
             Inr (too_large_message
                    (if map_option Type (PlannerOptions planner) = Some Sequential then ''plan''
                     else SkillName (last (Steps plan)))))"
proof (intro conjI impI)
  assume a: "prepare_json lib jsonContent plan = Inr (lastSkillInvoked, content, document)
    \<and> \<not> TokenCount lib content <s tokenLimit
    \<and> unwrap_single_property lib document tokenLimit = Inr (document1, tokenLimit1, resultsDescriptor)
    \<and> fst (accumulate_document lib document1 tokenLimit1) = []"
  then have "lastSkillInvoked = SkillName (last (Steps plan))"
    by (blast dest: prepare_json_lastSkillInvoked)
  with a show "OptimizeOpenApiSkillJson lib planner jsonContent tokenLimit plan =
          Inr (too_large_message
                 (if map_option Type (PlannerOptions planner) = Some Sequential then ''plan''
                  else SkillName (last (Steps plan))))"
    by (simp add: OptimizeOpenApiSkillJson_def truncate_json_def)
next
  assume b: "prepare_json lib jsonContent plan = Inr (lastSkillInvoked, content, document)
       \<and> unwrap_single_property lib document tokenLimit = Inr (document1, tokenLimit1, resultsDescriptor)
       \<and> sint tokenLimit \<le> 0 \<and> 0 \<le> sint (TokenCount lib content) \<and> sint tokenLimit1 \<le> 0
       \<and> (\<forall>item\<in>set (document_items document1).
             0 \<le> sint (item_cost lib item)
             \<and> - (2 ^ 31) \<le> sint tokenLimit1 - sint (item_cost lib item))"
  then have s: "lastSkillInvoked = SkillName (last (Steps plan))"
    by (blast dest: prepare_json_lastSkillInvoked)
  from b have over: "\<not> TokenCount lib content <s tokenLimit"
    by (simp add: nonnegative_count_not_below)
  from b have "fst (accumulate_document lib document1 tokenLimit1) = []"
    by (intro accumulate_document_nonpositive) simp_all
  with b s over show "OptimizeOpenApiSkillJson lib planner jsonContent tokenLimit plan =
          Inr (too_large_message
                 (if map_option Type (PlannerOptions planner) = Some Sequential then ''plan''
                  else SkillName (last (Steps plan))))"
    by (simp add: OptimizeOpenApiSkillJson_def truncate_json_def)
qed

text \<open>Claim C8, at a negative limit with a sequential planner and at limit 0 with an action planner.\<close>

theorem empty_accumulation_returns_too_large_message_witness:
  "OptimizeOpenApiSkillJson demo_lib planner_sequential results_text (- 5) one_step_plan
     = Inr ''JSON response from plan is too large to be consumed at this time.''
   \<and> OptimizeOpenApiSkillJson demo_lib planner_one_step results_text 0 one_step_plan
     = Inr ''JSON response from KlarnaPlugin is too large to be consumed at this time.''"
proof -
  have a: "fst (accumulate_document demo_lib array_123 (0 - 7)) = []"
    by (simp add: accumulate_document_def array_123_def item_cost_def TokenCount_demo_lib
        number_element_def word_sless_alt)
  have b: "\<not> TokenCount demo_lib results_text <s 0"
    by (simp add: TokenCount_demo_lib length_results_text word_sless_alt)
  have c: "sint (- 5 :: int32) \<le> 0" "0 \<le> sint (TokenCount demo_lib results_text)"
    "sint (- 5 - 7 :: int32) \<le> 0"
    by (simp_all add: TokenCount_demo_lib length_results_text)
  have d: "\<forall>item\<in>set (document_items array_123).
             0 \<le> sint (item_cost demo_lib item)
             \<and> - (2 ^ 31) \<le> sint (- 5 - 7 :: int32) - sint (item_cost demo_lib item)"
    by (simp add: document_items_def array_123_def item_cost_def TokenCount_demo_lib
        number_element_def)
  from empty_accumulation_returns_too_large_message
    [of demo_lib results_text one_step_plan "''KlarnaPlugin''" results_text results_document
        "- 5" array_123 "- 5 - 7" "''results: ''" planner_sequential]
    prepare_json_results unwrap_results [of "- 5"] c d
  have first: "OptimizeOpenApiSkillJson demo_lib planner_sequential results_text (- 5) one_step_plan
     = Inr (too_large_message ''plan'')"
    by (simp add: planner_sequential_def options_retry2_def)
  from empty_accumulation_returns_too_large_message
    [of demo_lib results_text one_step_plan "''KlarnaPlugin''" results_text results_document
        0 array_123 "0 - 7" "''results: ''" planner_one_step]
    prepare_json_results unwrap_results [of 0] a b
  have second: "OptimizeOpenApiSkillJson demo_lib planner_one_step results_text 0 one_step_plan
     = Inr (too_large_message ''KlarnaPlugin'')"
    by (simp add: planner_one_step_def options_retry2_def one_step_plan_def)
  from first second show ?thesis by (simp add: too_large_message_def)
qed

end
